theory Spec2Isabelle
  imports Complex_Main "HOL-Library.AList"
begin

section \<open>MelGAN training script: a shallow embedding of \<open>train_melgan.py\<close>\<close>

text \<open>
  Floating-point scalars and tensor entries are modelled by \<^typ>\<open>real\<close>, Python
  integers by \<^typ>\<open>int\<close>. The integers of the collater are \<open>tf.int32\<close> in the source
  and \<^typ>\<open>int\<close> here: the two agree as long as no length, product or sum reaches
  \<open>2 ^ 31\<close>, and a theorem whose hypotheses do not already bound them says so.
  Every exception the script can raise is a value of \<open>error\<close>, and a function that can
  raise returns \<open>error + 'a\<close> with \<open>Inl\<close> for the exception.
\<close>

subsection \<open>Exceptions\<close>

datatype error =
    UnboundLocalError string
  | IndexError
  | KeyError string
  | ZeroDivisionError
  | InvalidArgumentError string
  | OSError string
  | KeyboardInterrupt

subsection \<open>Sequence operations of the host language\<close>

text \<open>\<open>a // b\<close> on integer tensors: floor division, failing on a zero divisor.\<close>

definition floordiv :: "int \<Rightarrow> int \<Rightarrow> error + int" where
  "floordiv a b =
     (if b = 0 then Inl (InvalidArgumentError ''Integer division by zero'')
      else Inr (a div b))"

text \<open>
  \<open>tf.pad(x, [[0, n]])\<close> appends \<open>n\<close> zeros on the right; a negative amount is
  rejected by the padding kernel.
\<close>

definition tf_pad :: "'a list \<Rightarrow> int \<Rightarrow> 'a \<Rightarrow> error + 'a list" where
  "tf_pad xs n z =
     (if n < 0 then Inl (InvalidArgumentError ''Paddings must be non-negative'')
      else Inr (xs @ replicate (nat n) z))"

text \<open>
  \<open>xs[a:b]\<close>: a negative bound counts from the end, and both bounds are clamped to the
  sequence.
\<close>

definition slice_bound :: "nat \<Rightarrow> int \<Rightarrow> nat" where
  "slice_bound n i = (if i < 0 then nat (max 0 (i + int n)) else min (nat i) n)"

definition slice :: "'a list \<Rightarrow> int \<Rightarrow> int \<Rightarrow> 'a list" where
  "slice xs a b =
     (let s = slice_bound (length xs) a; e = slice_bound (length xs) b
      in take (e - s) (drop s xs))"

text \<open>
  \<open>tf.random.uniform(shape=[], minval, maxval, dtype=tf.int32)\<close>: the random generator is
  outside the program, and \<open>rng minval maxval\<close> is its raw output for this call. The
  operation reduces the raw output modulo the width of the range and adds \<open>minval\<close>, so
  the draw lies in \<open>[minval, maxval)\<close>; it rejects an empty range.
\<close>

definition random_uniform :: "(int \<Rightarrow> int \<Rightarrow> int) \<Rightarrow> int \<Rightarrow> int \<Rightarrow> error + int" where
  "random_uniform rng minval maxval =
     (if maxval \<le> minval then Inl (InvalidArgumentError ''Need minval < maxval'')
      else Inr (minval + rng minval maxval mod (maxval - minval)))"

subsection \<open>The collater\<close>

text \<open>
  The feature tensor has shape \<open>[frames, num_mels]\<close>; the number of columns is kept
  beside the rows, since padding an empty tensor still produces rows of that width.
\<close>

record feats =
  frames :: "real list list"
  num_mels :: nat

definition len_feats :: "feats \<Rightarrow> int" where
  "len_feats mel = int (length (frames mel))"

definition zero_frame :: "feats \<Rightarrow> real list" where
  "zero_frame mel = replicate (num_mels mel) 0"

text \<open>The value of \<open>batch_max_steps\<close> after the first statement of \<open>collater\<close>.\<close>

definition resolve_batch_max_steps :: "real list \<Rightarrow> int option \<Rightarrow> int \<Rightarrow> error + int" where
  "resolve_batch_max_steps audio batch_max_steps hop_size =
     (case batch_max_steps of
        None \<Rightarrow>
          (case floordiv (int (length audio)) hop_size of
             Inl e \<Rightarrow> Inl e
           | Inr q \<Rightarrow> Inr (q * hop_size))
      | Some b \<Rightarrow> Inr b)"

text \<open>The waveform after the alignment statement (\<open>if len(audio) < len(mel) * hop_size\<close>).\<close>

definition align_audio :: "real list \<Rightarrow> feats \<Rightarrow> int \<Rightarrow> error + real list" where
  "align_audio audio mel hop_size =
     (if int (length audio) < len_feats mel * hop_size
      then tf_pad audio (len_feats mel * hop_size - int (length audio)) 0
      else Inr audio)"

definition collater ::
  "(int \<Rightarrow> int \<Rightarrow> int) \<Rightarrow> real list \<Rightarrow> feats \<Rightarrow> int option \<Rightarrow> int \<Rightarrow> error + (real list \<times> feats)"
where
  "collater rng audio mel batch_max_steps hop_size =
     (case resolve_batch_max_steps audio batch_max_steps hop_size of
        Inl e \<Rightarrow> Inl e
      | Inr bms \<Rightarrow>
     (case floordiv bms hop_size of
        Inl e \<Rightarrow> Inl e
      | Inr batch_max_frames \<Rightarrow>
     (case align_audio audio mel hop_size of
        Inl e \<Rightarrow> Inl e
      | Inr audio1 \<Rightarrow>
        if len_feats mel > batch_max_frames then
          (let interval_start = 0;
               interval_end = len_feats mel - batch_max_frames
           in case random_uniform rng interval_start interval_end of
                Inl e \<Rightarrow> Inl e
              | Inr start_frame \<Rightarrow>
                  (let start_step = start_frame * hop_size
                   in Inr (slice audio1 start_step (start_step + bms),
                           mel\<lparr>frames :=
                                 slice (frames mel) start_frame (start_frame + batch_max_frames)\<rparr>)))
        else
          (case tf_pad audio1 (bms - int (length audio1)) 0 of
             Inl e \<Rightarrow> Inl e
           | Inr audio2 \<Rightarrow>
          (case tf_pad (frames mel) (batch_max_frames - len_feats mel) (zero_frame mel) of
             Inl e \<Rightarrow> Inl e
           | Inr rows \<Rightarrow> Inr (audio2, mel\<lparr>frames := rows\<rparr>))))))"


subsection \<open>Running-mean metrics\<close>

text \<open>
  \<open>tf.keras.metrics.Mean\<close>: two accumulators; \<open>result()\<close> is \<open>total / count\<close>, and 0
  while nothing has been accumulated (\<open>div_no_nan\<close>).
\<close>

record mean_metric =
  metric_name :: string
  m_total :: real
  m_count :: real

definition Mean :: "string \<Rightarrow> mean_metric" where
  "Mean name = \<lparr>metric_name = name, m_total = 0, m_count = 0\<rparr>"

definition update_state :: "mean_metric \<Rightarrow> real \<Rightarrow> mean_metric" where
  "update_state m v = m\<lparr>m_total := m_total m + v, m_count := m_count m + 1\<rparr>"

definition result :: "mean_metric \<Rightarrow> real" where
  "result m = (if m_count m = 0 then 0 else m_total m / m_count m)"

definition reset_states :: "mean_metric \<Rightarrow> mean_metric" where
  "reset_states m = m\<lparr>m_total := 0, m_count := 0\<rparr>"

text \<open>
  A metrics dictionary keeps its keys in insertion order; \<open>d.update({k: v})\<close> is
  \<^const>\<open>AList.update\<close>, and \<open>d[k]\<close> raises \<open>KeyError\<close> on a missing key.
\<close>

type_synonym metrics = "(string \<times> mean_metric) list"

definition list_metrics_name :: "string list" where
  "list_metrics_name =
     [''adversarial_loss'', ''fm_loss'', ''gen_loss'', ''real_loss'', ''fake_loss'', ''dis_loss'']"

fun init_metrics_loop :: "string list \<Rightarrow> metrics \<times> metrics \<Rightarrow> metrics \<times> metrics" where
  "init_metrics_loop [] (tr, ev) = (tr, ev)"
| "init_metrics_loop (name # names) (tr, ev) =
     init_metrics_loop names
       (AList.update name (Mean (''train_'' @ name)) tr,
        AList.update name (Mean (''eval_'' @ name)) ev)"

definition reset_all :: "metrics \<Rightarrow> metrics" where
  "reset_all ms = map (\<lambda>(name, m). (name, reset_states m)) ms"

text \<open>\<open>metrics[name].update_state(v)\<close> and \<open>metrics[name].result()\<close>.\<close>

definition metric_update :: "metrics \<Rightarrow> string \<Rightarrow> real \<Rightarrow> error + metrics" where
  "metric_update ms name v =
     (case map_of ms name of
        None \<Rightarrow> Inl (KeyError name)
      | Some m \<Rightarrow> Inr (AList.update name (update_state m v) ms))"

definition metric_result :: "metrics \<Rightarrow> string \<Rightarrow> error + real" where
  "metric_result ms name =
     (case map_of ms name of None \<Rightarrow> Inl (KeyError name) | Some m \<Rightarrow> Inr (result m))"

text \<open>A finite sequence of update calls, each naming its metric.\<close>

fun metric_updates :: "metrics \<Rightarrow> (string \<times> real) list \<Rightarrow> error + metrics" where
  "metric_updates ms [] = Inr ms"
| "metric_updates ms ((name, v) # us) =
     (case metric_update ms name v of Inl e \<Rightarrow> Inl e | Inr ms' \<Rightarrow> metric_updates ms' us)"

subsection \<open>Tensors and loss functions\<close>

text \<open>
  A tensor is the list of its entries; the discriminator returns, for every scale, the
  list of its layer outputs, the last one being the decision. \<open>tf.reduce_mean\<close> of an
  empty tensor is NaN, which \<^typ>\<open>real\<close> does not have: the mean is meaningful for
  non-empty tensors only.
\<close>

type_synonym tensor = "real list"
type_synonym dis_out = "tensor list list"

definition reduce_mean :: "tensor \<Rightarrow> real" where
  "reduce_mean t = sum_list t / real (length t)"

text \<open>
  Modelled from the spec: \<open>tensorflow_tts.losses.melgan_relu_error\<close> is not among the
  sources; the specification gives \<open>error(target, pred) = mean(relu(target - pred))\<close>.
\<close>

definition melgan_relu_error :: "real \<Rightarrow> tensor \<Rightarrow> real" where
  "melgan_relu_error target pred = reduce_mean (map (\<lambda>x. max 0 (target - x)) pred)"

text \<open>
  Modelled from the spec: \<open>tensorflow_tts.losses.mae_error\<close> is not among the sources;
  the specification calls it the mean absolute error between the two activations.
\<close>

definition mae_error :: "tensor \<Rightarrow> tensor \<Rightarrow> real" where
  "mae_error y_true y_pred = reduce_mean (map2 (\<lambda>a b. \<bar>a - b\<bar>) y_true y_pred)"

text \<open>\<open>xs[i]\<close> for an index from \<open>range\<close>, and \<open>xs[-1]\<close>.\<close>

definition getitem :: "'a list \<Rightarrow> nat \<Rightarrow> error + 'a" where
  "getitem xs i = (if i < length xs then Inr (xs ! i) else Inl IndexError)"

definition last_item :: "'a list \<Rightarrow> error + 'a" where
  "last_item xs = (if xs = [] then Inl IndexError else Inr (last xs))"

definition getitem2 :: "'a list list \<Rightarrow> nat \<Rightarrow> nat \<Rightarrow> error + 'a" where
  "getitem2 xs i j = (case getitem xs i of Inl e \<Rightarrow> Inl e | Inr row \<Rightarrow> getitem row j)"

definition decision :: "dis_out \<Rightarrow> nat \<Rightarrow> error + tensor" where
  "decision p i = (case getitem p i of Inl e \<Rightarrow> Inl e | Inr scale \<Rightarrow> last_item scale)"

subsection \<open>Configuration\<close>

record config =
  downsample_scales :: "int list"
  scales :: int
  lambda_feat_match :: real
  train_max_steps :: int
  num_save_intermediate_results :: int
  sampling_rate :: int

subsection \<open>Loss computations of the generator and discriminator steps\<close>

text \<open>
  \<open>for i in range(len(p_hat)): adv_loss += melgan_relu_error(0.0, 1.0 * p_hat[i][-1])\<close>
\<close>

fun adv_loss_loop :: "dis_out \<Rightarrow> nat list \<Rightarrow> real \<Rightarrow> error + real" where
  "adv_loss_loop p_hat [] adv_loss = Inr adv_loss"
| "adv_loss_loop p_hat (i # is) adv_loss =
     (case decision p_hat i of
        Inl e \<Rightarrow> Inl e
      | Inr d \<Rightarrow> adv_loss_loop p_hat is (adv_loss + melgan_relu_error 0 (map ((*) 1) d)))"

text \<open>
  \<open>feat_weights = 4.0 / (len(downsample_scales) + 1)\<close>, \<open>p_weights = 1.0 / scales\<close>,
  \<open>wt = p_weights * feat_weights\<close>; dividing by a zero \<open>scales\<close> raises.
\<close>

definition feature_weight :: "config \<Rightarrow> error + real" where
  "feature_weight cfg =
     (let feat_weights = 4 / (real (length (downsample_scales cfg)) + 1)
      in if scales cfg = 0 then Inl ZeroDivisionError
         else (let p_weights = 1 / real_of_int (scales cfg)
               in Inr (p_weights * feat_weights)))"

text \<open>
  \<open>for j in range(len(p_hat[i]) - 1): fm_loss += wt * mae_error(p_hat[i][j], p[i][j])\<close>
\<close>

fun fm_inner_loop ::
  "dis_out \<Rightarrow> dis_out \<Rightarrow> real \<Rightarrow> nat \<Rightarrow> nat list \<Rightarrow> real \<Rightarrow> error + real"
where
  "fm_inner_loop p_hat p wt i [] fm_loss = Inr fm_loss"
| "fm_inner_loop p_hat p wt i (j # js) fm_loss =
     (case getitem2 p_hat i j of
        Inl e \<Rightarrow> Inl e
      | Inr a \<Rightarrow>
     (case getitem2 p i j of
        Inl e \<Rightarrow> Inl e
      | Inr b \<Rightarrow> fm_inner_loop p_hat p wt i js (fm_loss + wt * mae_error a b)))"

fun fm_loss_loop :: "dis_out \<Rightarrow> dis_out \<Rightarrow> real \<Rightarrow> nat list \<Rightarrow> real \<Rightarrow> error + real" where
  "fm_loss_loop p_hat p wt [] fm_loss = Inr fm_loss"
| "fm_loss_loop p_hat p wt (i # is) fm_loss =
     (case getitem p_hat i of
        Inl e \<Rightarrow> Inl e
      | Inr scale \<Rightarrow>
     (case fm_inner_loop p_hat p wt i [0..<length scale - 1] fm_loss of
        Inl e \<Rightarrow> Inl e
      | Inr fm_loss' \<Rightarrow> fm_loss_loop p_hat p wt is fm_loss'))"

text \<open>
  Lines 116 to 130 of \<open>_one_step_generator\<close>, from \<open>adv_loss = 0.0\<close> to \<open>gen_loss\<close>:
  the result is \<open>(adv_loss, fm_loss, gen_loss)\<close>.
\<close>

definition generator_losses :: "config \<Rightarrow> dis_out \<Rightarrow> dis_out \<Rightarrow> error + (real \<times> real \<times> real)" where
  "generator_losses cfg p_hat p =
     (case adv_loss_loop p_hat [0..<length p_hat] 0 of
        Inl e \<Rightarrow> Inl e
      | Inr adv_loss \<Rightarrow>
     (case feature_weight cfg of
        Inl e \<Rightarrow> Inl e
      | Inr wt \<Rightarrow>
     (case fm_loss_loop p_hat p wt [0..<length p_hat] 0 of
        Inl e \<Rightarrow> Inl e
      | Inr fm_loss \<Rightarrow>
          Inr (adv_loss, fm_loss, adv_loss + lambda_feat_match cfg * fm_loss))))"

text \<open>
  \<open>for i in range(len(p)):\<close> \<open>real_loss += melgan_relu_error(1.0, p[i][-1])\<close>;
  \<open>fake_loss += melgan_relu_error(1.0, -p_hat[i][-1])\<close>
\<close>

fun dis_loss_loop :: "dis_out \<Rightarrow> dis_out \<Rightarrow> nat list \<Rightarrow> real \<times> real \<Rightarrow> error + (real \<times> real)" where
  "dis_loss_loop p p_hat [] (real_loss, fake_loss) = Inr (real_loss, fake_loss)"
| "dis_loss_loop p p_hat (i # is) (real_loss, fake_loss) =
     (case decision p i of
        Inl e \<Rightarrow> Inl e
      | Inr d \<Rightarrow>
     (case decision p_hat i of
        Inl e \<Rightarrow> Inl e
      | Inr d_hat \<Rightarrow>
          dis_loss_loop p p_hat is
            (real_loss + melgan_relu_error 1 d,
             fake_loss + melgan_relu_error 1 (map uminus d_hat))))"

text \<open>
  The loss lines of the discriminator step: the result is
  \<open>(real_loss, fake_loss, dis_loss)\<close>.
\<close>

definition discriminator_losses :: "dis_out \<Rightarrow> dis_out \<Rightarrow> error + (real \<times> real \<times> real)" where
  "discriminator_losses p p_hat =
     (case dis_loss_loop p p_hat [0..<length p] (0, 0) of
        Inl e \<Rightarrow> Inl e
      | Inr (real_loss, fake_loss) \<Rightarrow> Inr (real_loss, fake_loss, real_loss + fake_loss))"

subsection \<open>External collaborators and the trainer\<close>

text \<open>
  The networks, automatic differentiation, the optimizers and the file system are
  outside the script. They are parameters of the model: \<open>'w\<close> is a set of trainable
  variables (and of gradients for them), \<open>'o\<close> the internal state of an optimizer.
  \<open>tape_gradient loss w\<close> is \<open>tape.gradient\<close> of a loss recorded on the tape, given as a
  function of the variables, at their current value \<open>w\<close>. \<open>write_fails\<close> says which
  file-system writes raise.
\<close>

datatype artifact = PredictionDir int | Figure int int | RefWav int int | GenWav int int

record ('w, 'o) collaborators =
  generator :: "'w \<Rightarrow> tensor list \<Rightarrow> tensor list"
  discriminator :: "'w \<Rightarrow> tensor list \<Rightarrow> dis_out"
  tape_gradient :: "('w \<Rightarrow> error + real) \<Rightarrow> 'w \<Rightarrow> 'w"
  get_scaled_loss :: "'o \<Rightarrow> real \<Rightarrow> real"
  get_unscaled_gradients :: "'o \<Rightarrow> 'w \<Rightarrow> 'w"
  apply_gradients :: "'o \<Rightarrow> 'w \<Rightarrow> 'w \<Rightarrow> 'w \<times> 'o"
  write_fails :: "artifact \<Rightarrow> bool"

text \<open>What the script does to the outside world, in order: log lines, summaries, files.\<close>

datatype ('w, 'o) event =
    LogEvalStart int
  | LogEvalFinished int int
  | LogEvalMetric int string real
  | LogCheckpointSaved int
  | Tensorboard string int "(string \<times> real) list"
  | Written artifact "tensor list"
  | CheckpointSaved int int 'w 'w 'o 'o

record ('w, 'o) trainer =
  steps :: int
  epochs :: int
  finish_train :: bool
  tqdm_n :: int
  config :: config
  is_generator_mixed_precision :: bool
  is_discriminator_mixed_precision :: bool
  gen_vars :: 'w
  dis_vars :: 'w
  gen_optimizer :: 'o
  dis_optimizer :: 'o
  train_metrics :: metrics
  eval_metrics :: metrics
  events :: "('w, 'o) event list"

text \<open>
  A method of the trainer that raises leaves the trainer object as it was at that
  moment: the result is \<open>Inl (exception, trainer)\<close>, or \<open>Inr\<close> of the normal result.
\<close>

type_synonym ('w, 'o, 'a) outcome = "(error \<times> ('w, 'o) trainer) + 'a"

text \<open>
  \<open>MelganTrainer.__init__\<close>, followed by the setters of \<open>main\<close> for the models and the
  optimizers. The counters and \<open>finish_train = False\<close> are set by the base class, which
  is not among the sources.
\<close>

definition init_train_eval_metrics :: "string list \<Rightarrow> ('w, 'o) trainer \<Rightarrow> ('w, 'o) trainer" where
  "init_train_eval_metrics names st =
     (case init_metrics_loop names ([], []) of
        (tr, ev) \<Rightarrow> st\<lparr>train_metrics := tr, eval_metrics := ev\<rparr>)"

definition reset_states_train :: "('w, 'o) trainer \<Rightarrow> ('w, 'o) trainer" where
  "reset_states_train st = st\<lparr>train_metrics := reset_all (train_metrics st)\<rparr>"

definition reset_states_eval :: "('w, 'o) trainer \<Rightarrow> ('w, 'o) trainer" where
  "reset_states_eval st = st\<lparr>eval_metrics := reset_all (eval_metrics st)\<rparr>"

definition MelganTrainer ::
  "config \<Rightarrow> int \<Rightarrow> int \<Rightarrow> bool \<Rightarrow> bool \<Rightarrow> 'w \<Rightarrow> 'w \<Rightarrow> 'o \<Rightarrow> 'o \<Rightarrow> ('w, 'o) trainer"
where
  "MelganTrainer cfg steps0 epochs0 gen_mp dis_mp gw dw gopt dopt =
     reset_states_eval (reset_states_train (init_train_eval_metrics list_metrics_name
       \<lparr>steps = steps0, epochs = epochs0, finish_train = False, tqdm_n = 0, config = cfg,
        is_generator_mixed_precision = gen_mp, is_discriminator_mixed_precision = dis_mp,
        gen_vars = gw, dis_vars = dw, gen_optimizer = gopt, dis_optimizer = dopt,
        train_metrics = [], eval_metrics = [], events = []\<rparr>))"

text \<open>\<open>self.train_metrics[name].update_state(v)\<close>, one call after the other.\<close>

fun record_train :: "('w, 'o) trainer \<Rightarrow> (string \<times> real) list \<Rightarrow> ('w, 'o, ('w, 'o) trainer) outcome" where
  "record_train st [] = Inr st"
| "record_train st ((name, v) # us) =
     (case metric_update (train_metrics st) name v of
        Inl e \<Rightarrow> Inl (e, st)
      | Inr ms \<Rightarrow> record_train (st\<lparr>train_metrics := ms\<rparr>) us)"

fun record_eval :: "('w, 'o) trainer \<Rightarrow> (string \<times> real) list \<Rightarrow> ('w, 'o, ('w, 'o) trainer) outcome" where
  "record_eval st [] = Inr st"
| "record_eval st ((name, v) # us) =
     (case metric_update (eval_metrics st) name v of
        Inl e \<Rightarrow> Inl (e, st)
      | Inr ms \<Rightarrow> record_eval (st\<lparr>eval_metrics := ms\<rparr>) us)"

text \<open>
  \<open>tf.expand_dims(y, 2)\<close> adds a trailing axis of size one; the entries, which is all a
  tensor is here, stay the same.
\<close>

definition expand_dims :: "tensor list \<Rightarrow> tensor list" where
  "expand_dims y = y"

text \<open>Reading a local variable that is bound only on some paths.\<close>

definition read_local :: "string \<Rightarrow> 'a option \<Rightarrow> error + 'a" where
  "read_local name v = (case v of None \<Rightarrow> Inl (UnboundLocalError name) | Some x \<Rightarrow> Inr x)"

definition scaled :: "('w, 'o) collaborators \<Rightarrow> 'o \<Rightarrow> ('w \<Rightarrow> error + real) \<Rightarrow> ('w \<Rightarrow> error + real)" where
  "scaled env opt loss =
     (\<lambda>w. case loss w of Inl e \<Rightarrow> Inl e | Inr l \<Rightarrow> Inr (get_scaled_loss env opt l))"

subsection \<open>The generator step\<close>

text \<open>\<open>gen_loss\<close> as the tape of \<open>_one_step_generator\<close> records it: a function of the generator's variables.\<close>

definition gen_loss_on_tape ::
  "('w, 'o) collaborators \<Rightarrow> ('w, 'o) trainer \<Rightarrow> tensor list \<Rightarrow> tensor list \<Rightarrow> 'w \<Rightarrow> error + real"
where
  "gen_loss_on_tape env st y mels w =
     (let y_hat = generator env w mels;
          p_hat = discriminator env (dis_vars st) y_hat;
          p = discriminator env (dis_vars st) (expand_dims y)
      in case generator_losses (config st) p_hat p of
           Inl e \<Rightarrow> Inl e
         | Inr (adv_loss, fm_loss, gen_loss) \<Rightarrow> Inr gen_loss)"

definition one_step_generator ::
  "('w, 'o) collaborators \<Rightarrow> ('w, 'o) trainer \<Rightarrow> tensor list \<Rightarrow> tensor list
     \<Rightarrow> ('w, 'o, ('w, 'o) trainer \<times> tensor list \<times> tensor list) outcome"
where
  "one_step_generator env st y mels =
     (let y_hat = generator env (gen_vars st) mels;
          p_hat = discriminator env (dis_vars st) y_hat;
          p = discriminator env (dis_vars st) (expand_dims y)
      in case generator_losses (config st) p_hat p of
           Inl e \<Rightarrow> Inl (e, st)
         | Inr (adv_loss, fm_loss, gen_loss) \<Rightarrow>
      (let scaled_gen_loss =
             (if is_generator_mixed_precision st
              then Some (scaled env (gen_optimizer st) (gen_loss_on_tape env st y mels))
              else None)
       in case (if is_generator_mixed_precision st then
                  (case read_local ''scaled_gen_loss'' scaled_gen_loss of
                     Inl e \<Rightarrow> Inl e
                   | Inr l \<Rightarrow>
                       Inr (get_unscaled_gradients env (gen_optimizer st)
                              (tape_gradient env l (gen_vars st))))
                else Inr (tape_gradient env (gen_loss_on_tape env st y mels) (gen_vars st))) of
            Inl e \<Rightarrow> Inl (e, st)
          | Inr gradients \<Rightarrow>
       (case apply_gradients env (gen_optimizer st) gradients (gen_vars st) of
          (vars', opt') \<Rightarrow>
       (case record_train (st\<lparr>gen_vars := vars', gen_optimizer := opt'\<rparr>)
               [(''adversarial_loss'', adv_loss), (''fm_loss'', fm_loss), (''gen_loss'', gen_loss)] of
          Inl x \<Rightarrow> Inl x
        | Inr st' \<Rightarrow> Inr (st', y, y_hat)))))"

subsection \<open>The discriminator step\<close>

text \<open>\<open>dis_loss\<close> as the tape of \<open>_one_step_discriminator\<close> records it.\<close>

definition dis_loss_on_tape ::
  "('w, 'o) collaborators \<Rightarrow> tensor list \<Rightarrow> tensor list \<Rightarrow> 'w \<Rightarrow> error + real"
where
  "dis_loss_on_tape env y y_hat w =
     (let y1 = expand_dims y;
          p = discriminator env w y1;
          p_hat = discriminator env w y_hat
      in case discriminator_losses p p_hat of
           Inl e \<Rightarrow> Inl e
         | Inr (real_loss, fake_loss, dis_loss) \<Rightarrow> Inr dis_loss)"

text \<open>
  Both branches after the tape read \<open>scaled_dis_loss\<close>, which is bound only when
  \<open>is_discriminator_mixed_precision\<close> holds (line 170 of the source).
\<close>

definition one_step_discriminator ::
  "('w, 'o) collaborators \<Rightarrow> ('w, 'o) trainer \<Rightarrow> tensor list \<Rightarrow> tensor list
     \<Rightarrow> ('w, 'o, ('w, 'o) trainer) outcome"
where
  "one_step_discriminator env st y y_hat =
     (let y1 = expand_dims y;
          p = discriminator env (dis_vars st) y1;
          p_hat = discriminator env (dis_vars st) y_hat
      in case discriminator_losses p p_hat of
           Inl e \<Rightarrow> Inl (e, st)
         | Inr (real_loss, fake_loss, dis_loss) \<Rightarrow>
      (let scaled_dis_loss =
             (if is_discriminator_mixed_precision st
              then Some (scaled env (dis_optimizer st) (dis_loss_on_tape env y y_hat))
              else None)
       in case (if is_discriminator_mixed_precision st then
                  (case read_local ''scaled_dis_loss'' scaled_dis_loss of
                     Inl e \<Rightarrow> Inl e
                   | Inr l \<Rightarrow>
                       Inr (get_unscaled_gradients env (dis_optimizer st)
                              (tape_gradient env l (dis_vars st))))
                else
                  (case read_local ''scaled_dis_loss'' scaled_dis_loss of
                     Inl e \<Rightarrow> Inl e
                   | Inr l \<Rightarrow> Inr (tape_gradient env l (dis_vars st)))) of
            Inl e \<Rightarrow> Inl (e, st)
          | Inr gradients \<Rightarrow>
       (case apply_gradients env (dis_optimizer st) gradients (dis_vars st) of
          (vars', opt') \<Rightarrow>
            record_train (st\<lparr>dis_vars := vars', dis_optimizer := opt'\<rparr>)
              [(''real_loss'', real_loss), (''fake_loss'', fake_loss), (''dis_loss'', dis_loss)])))"

subsection \<open>The training step\<close>

definition check_train_finish :: "('w, 'o) trainer \<Rightarrow> ('w, 'o) trainer" where
  "check_train_finish st =
     (if steps st \<ge> train_max_steps (config st) then st\<lparr>finish_train := True\<rparr> else st)"

definition train_step ::
  "('w, 'o) collaborators \<Rightarrow> ('w, 'o) trainer \<Rightarrow> tensor list \<times> tensor list
     \<Rightarrow> ('w, 'o, ('w, 'o) trainer) outcome"
where
  "train_step env st batch =
     (case batch of (y, mels) \<Rightarrow>
      (case one_step_generator env st y mels of
         Inl x \<Rightarrow> Inl x
       | Inr (st1, y1, y_hat) \<Rightarrow>
      (case one_step_discriminator env st1 y1 y_hat of
         Inl x \<Rightarrow> Inl x
       | Inr st2 \<Rightarrow>
           Inr (check_train_finish (st2\<lparr>steps := steps st2 + 1, tqdm_n := tqdm_n st2 + 1\<rparr>)))))"

text \<open>A training run: the batches consumed, one training step each, until one raises.\<close>

fun train_batches ::
  "('w, 'o) collaborators \<Rightarrow> ('w, 'o) trainer \<Rightarrow> (tensor list \<times> tensor list) list
     \<Rightarrow> ('w, 'o, ('w, 'o) trainer) outcome"
where
  "train_batches env st [] = Inr st"
| "train_batches env st (batch # batches) =
     (case train_step env st batch of
        Inl x \<Rightarrow> Inl x
      | Inr st' \<Rightarrow> train_batches env st' batches)"

subsection \<open>The evaluation step\<close>

definition predict :: "('w, 'o) collaborators \<Rightarrow> ('w, 'o) trainer \<Rightarrow> tensor list \<Rightarrow> tensor list" where
  "predict env st batch = generator env (gen_vars st) batch"

text \<open>
  \<open>_eval_step\<close>. Its generator part (lines 212 to 226) is the loss code of the generator
  step, word for word, with \<open>p\<close> computed between the two loops; its discriminator part
  applies the discriminator to \<open>y_hat\<close> a second time (line 229).
\<close>

definition eval_step ::
  "('w, 'o) collaborators \<Rightarrow> ('w, 'o) trainer \<Rightarrow> tensor list \<times> tensor list
     \<Rightarrow> ('w, 'o, ('w, 'o) trainer) outcome"
where
  "eval_step env st batch =
     (case batch of (y, mels) \<Rightarrow>
      (let y_hat = predict env st mels;
           p_hat = discriminator env (dis_vars st) y_hat;
           p = discriminator env (dis_vars st) (expand_dims y)
       in case generator_losses (config st) p_hat p of
            Inl e \<Rightarrow> Inl (e, st)
          | Inr (adv_loss, fm_loss, gen_loss) \<Rightarrow>
       (let p_hat2 = discriminator env (dis_vars st) y_hat
        in case discriminator_losses p p_hat2 of
             Inl e \<Rightarrow> Inl (e, st)
           | Inr (real_loss, fake_loss, dis_loss) \<Rightarrow>
               record_eval st
                 [(''adversarial_loss'', adv_loss), (''fm_loss'', fm_loss),
                  (''gen_loss'', gen_loss), (''real_loss'', real_loss),
                  (''fake_loss'', fake_loss), (''dis_loss'', dis_loss)])))"

subsection \<open>Intermediate results\<close>

definition emit :: "('w, 'o) trainer \<Rightarrow> ('w, 'o) event \<Rightarrow> ('w, 'o) trainer" where
  "emit st ev = st\<lparr>events := events st @ [ev]\<rparr>"

text \<open>
  One write to the file system (\<open>os.makedirs\<close>, \<open>plt.savefig\<close>, \<open>sf.write\<close>): it raises
  when the file system refuses it and is recorded otherwise. Nothing in the script
  catches the exception.
\<close>

definition write_artifact ::
  "('w, 'o) collaborators \<Rightarrow> ('w, 'o) trainer \<Rightarrow> artifact \<Rightarrow> tensor list
     \<Rightarrow> ('w, 'o, ('w, 'o) trainer) outcome"
where
  "write_artifact env st a content =
     (if write_fails env a then Inl (OSError ''write failed'', st)
      else Inr (emit st (Written a content)))"

definition clip :: "tensor \<Rightarrow> tensor" where
  "clip t = map (\<lambda>x. max (- 1) (min 1 x)) t"

text \<open>The loop over \<open>zip(y_batch, y_batch_)\<close>: a figure and two wave files per item.\<close>

fun save_loop ::
  "('w, 'o) collaborators \<Rightarrow> ('w, 'o) trainer \<Rightarrow> int \<Rightarrow> (tensor \<times> tensor) list
     \<Rightarrow> ('w, 'o, ('w, 'o) trainer) outcome"
where
  "save_loop env st idx [] = Inr st"
| "save_loop env st idx ((y, y_gen) # rest) =
     (case write_artifact env st (Figure (steps st) idx) [y, y_gen] of
        Inl x \<Rightarrow> Inl x
      | Inr st1 \<Rightarrow>
     (case write_artifact env st1 (RefWav (steps st1) idx) [clip y] of
        Inl x \<Rightarrow> Inl x
      | Inr st2 \<Rightarrow>
     (case write_artifact env st2 (GenWav (steps st2) idx) [clip y_gen] of
        Inl x \<Rightarrow> Inl x
      | Inr st3 \<Rightarrow> save_loop env st3 idx rest)))"

text \<open>
  \<open>generate_and_save_intermediate_result\<close>. The directory of the current step exists
  when an earlier call has created it.
\<close>

definition generate_and_save_intermediate_result ::
  "('w, 'o) collaborators \<Rightarrow> ('w, 'o) trainer \<Rightarrow> tensor list \<times> tensor list \<Rightarrow> int
     \<Rightarrow> ('w, 'o, ('w, 'o) trainer) outcome"
where
  "generate_and_save_intermediate_result env st batch idx =
     (case batch of (y_batch, x_batch) \<Rightarrow>
      (let y_batch_gen = predict env st x_batch
       in case (if Written (PredictionDir (steps st)) [] \<in> set (events st) then Inr st
                else write_artifact env st (PredictionDir (steps st)) []) of
            Inl x \<Rightarrow> Inl x
          | Inr st1 \<Rightarrow> save_loop env st1 idx (zip y_batch y_batch_gen)))"

subsection \<open>The evaluation epoch\<close>

text \<open>
  Modelled from the spec: \<open>_write_to_tensorboard\<close> belongs to the base class, which is
  not among the sources; the specification describes the summary sink as an append-only
  \<open>write(metric_name -> value, step, phase)\<close>.
\<close>

definition write_to_tensorboard :: "('w, 'o) trainer \<Rightarrow> metrics \<Rightarrow> string \<Rightarrow> ('w, 'o) trainer" where
  "write_to_tensorboard st ms stage =
     emit st (Tensorboard stage (steps st) (map (\<lambda>(name, m). (name, result m)) ms))"

text \<open>
  The loop of \<open>_eval_epoch\<close> over \<open>enumerate(eval_data_loader, 1)\<close>. The second component
  of the loop state is the loop variable \<open>eval_steps_per_epoch\<close>: \<open>None\<close> until the first
  iteration binds it.
\<close>

fun eval_loop ::
  "('w, 'o) collaborators \<Rightarrow> (tensor list \<times> tensor list) list \<Rightarrow> int
     \<Rightarrow> ('w, 'o) trainer \<times> int option \<Rightarrow> ('w, 'o, ('w, 'o) trainer \<times> int option) outcome"
where
  "eval_loop env [] k (st, v) = Inr (st, v)"
| "eval_loop env (batch # batches) k (st, v) =
     (let eval_steps_per_epoch = k
      in case eval_step env st batch of
           Inl x \<Rightarrow> Inl x
         | Inr st1 \<Rightarrow>
      (case (if eval_steps_per_epoch \<le> num_save_intermediate_results (config st1)
             then generate_and_save_intermediate_result env st1 batch eval_steps_per_epoch
             else Inr st1) of
         Inl x \<Rightarrow> Inl x
       | Inr st2 \<Rightarrow> eval_loop env batches (k + 1) (st2, Some eval_steps_per_epoch)))"

definition log_eval_metrics :: "('w, 'o) trainer \<Rightarrow> ('w, 'o) trainer" where
  "log_eval_metrics st =
     st\<lparr>events := events st @
          map (\<lambda>(key, m). LogEvalMetric (steps st) key (result m)) (eval_metrics st)\<rparr>"

definition eval_epoch ::
  "('w, 'o) collaborators \<Rightarrow> ('w, 'o) trainer \<Rightarrow> (tensor list \<times> tensor list) list
     \<Rightarrow> ('w, 'o, ('w, 'o) trainer) outcome"
where
  "eval_epoch env st eval_data_loader =
     (case eval_loop env eval_data_loader 1 (emit st (LogEvalStart (steps st)), None) of
        Inl x \<Rightarrow> Inl x
      | Inr (st1, v) \<Rightarrow>
     (case read_local ''eval_steps_per_epoch'' v of
        Inl e \<Rightarrow> Inl (e, st1)
      | Inr eval_steps_per_epoch \<Rightarrow>
          (let st2 = emit st1 (LogEvalFinished (steps st1) eval_steps_per_epoch);
               st3 = log_eval_metrics st2;
               st4 = write_to_tensorboard st3 (eval_metrics st3) ''eval''
           in Inr (reset_states_eval st4))))"

subsection \<open>Starting the training from \<open>main\<close>\<close>

text \<open>
  Modelled from the spec: \<open>save_checkpoint\<close> belongs to the base class, which is not
  among the sources; the specification describes a checkpoint as the persisted snapshot
  of both networks' weights, both optimizers' states, \<open>steps\<close> and \<open>epochs\<close>.
\<close>

definition save_checkpoint :: "('w, 'o) trainer \<Rightarrow> ('w, 'o) trainer" where
  "save_checkpoint st =
     emit st (CheckpointSaved (steps st) (epochs st) (gen_vars st) (dis_vars st)
                (gen_optimizer st) (dis_optimizer st))"

text \<open>
  The last statement of \<open>main\<close>: \<open>trainer.run()\<close> inside \<open>try\<close>, with the handler for
  \<open>KeyboardInterrupt\<close>. The method \<open>run\<close> belongs to the base class and is a parameter:
  it returns the trainer, or raises and leaves the trainer as it was at that moment.
  Any other exception leaves \<open>main\<close> unhandled.
\<close>

definition start_training ::
  "(('w, 'o) trainer \<Rightarrow> ('w, 'o, ('w, 'o) trainer) outcome) \<Rightarrow> ('w, 'o) trainer
     \<Rightarrow> ('w, 'o, ('w, 'o) trainer) outcome"
where
  "start_training run trainer =
     (case run trainer of
        Inr trainer' \<Rightarrow> Inr trainer'
      | Inl (e, trainer') \<Rightarrow>
          (if e = KeyboardInterrupt
           then (let saved = save_checkpoint trainer'
                 in Inr (emit saved (LogCheckpointSaved (steps saved))))
           else Inl (e, trainer')))"

subsection \<open>Reading an outcome\<close>

definition raised :: "('w, 'o, 'a) outcome \<Rightarrow> error option" where
  "raised r = (case r of Inl (e, st) \<Rightarrow> Some e | Inr x \<Rightarrow> None)"

definition final_trainer :: "('w, 'o, ('w, 'o) trainer) outcome \<Rightarrow> ('w, 'o) trainer" where
  "final_trainer r = (case r of Inl (e, st) \<Rightarrow> st | Inr st \<Rightarrow> st)"

fun is_written :: "('w, 'o) event \<Rightarrow> bool" where
  "is_written (Written a content) = True"
| "is_written ev = False"

fun is_unbound_local :: "error \<Rightarrow> bool" where
  "is_unbound_local (UnboundLocalError name) = True"
| "is_unbound_local e = False"

text \<open>
  \<open>only_writes st st'\<close>: from \<open>st\<close> to \<open>st'\<close> the evaluation metrics are untouched and
  the only new events are written files.
\<close>

definition only_writes :: "('w, 'o) trainer \<Rightarrow> ('w, 'o) trainer \<Rightarrow> bool" where
  "only_writes st st' \<longleftrightarrow>
     eval_metrics st' = eval_metrics st \<and>
     take (length (events st)) (events st') = events st \<and>
     list_all is_written (drop (length (events st)) (events st'))"

text \<open>The part of the trainer that the loop driver reads: the counter, the flag, the configuration.\<close>

definition counters :: "('w, 'o) trainer \<Rightarrow> int \<times> bool \<times> config" where
  "counters st = (steps st, finish_train st, config st)"

subsection \<open>A concrete instance\<close>

text \<open>
  A small configuration and stand-ins for the collaborators, on which the definitions
  above can be evaluated: one real number as the variables of each network, a
  one-scale discriminator with one intermediate layer, a counter as optimizer state.
\<close>

definition example_config :: config where
  "example_config =
     \<lparr>downsample_scales = [4], scales = 1, lambda_feat_match = 10, train_max_steps = 2,
      num_save_intermediate_results = 1, sampling_rate = 22050\<rparr>"

definition example_env :: "(real, nat) collaborators" where
  "example_env =
     \<lparr>generator = (\<lambda>w mels. map (map ((*) w)) mels),
      discriminator = (\<lambda>w x. [[concat x, map ((*) w) (concat x)]]),
      tape_gradient = (\<lambda>loss w. case loss w of Inl e \<Rightarrow> 0 | Inr l \<Rightarrow> l),
      get_scaled_loss = (\<lambda>opt l. 2 * l),
      get_unscaled_gradients = (\<lambda>opt g. g / 2),
      apply_gradients = (\<lambda>opt g w. (w - g / 10, Suc opt)),
      write_fails = (\<lambda>a. False)\<rparr>"

definition example_trainer :: "bool \<Rightarrow> (real, nat) trainer" where
  "example_trainer dis_mp = MelganTrainer example_config 0 0 False dis_mp 1 1 0 0"

definition example_batch :: "tensor list \<times> tensor list" where
  "example_batch = ([[1, 2]], [[1, 3]])"

text \<open>The same collaborators on a file system that refuses the figure of the first batch at step 0.\<close>

definition example_env_failing :: "(real, nat) collaborators" where
  "example_env_failing = example_env\<lparr>write_fails := (\<lambda>a. a = Figure 0 1)\<rparr>"

section \<open>Properties of the collater\<close>

lemma slice_window:
  assumes "0 \<le> a" "0 \<le> n" "a + n \<le> int (length xs)"
  shows "slice xs a (a + n) = take (nat n) (drop (nat a) xs)"
proof -
  have "nat a + nat n \<le> length xs" using assms by linarith
  then show ?thesis using assms
    by (simp add: slice_def slice_bound_def Let_def nat_add_distrib min_def)
qed

lemma align_audio_value:
  "0 < hop_size \<Longrightarrow> align_audio audio mel hop_size =
     Inr (audio @ replicate (nat (len_feats mel * hop_size - int (length audio))) 0)"
  by (simp add: align_audio_def tf_pad_def)

lemma window_fits:
  fixes hop bms sf n :: int
  assumes hop: "0 < hop" and sf: "sf < n - bms div hop"
  shows "sf * hop + bms \<le> n * hop"
proof -
  have "sf + 1 \<le> n - bms div hop" using sf by simp
  then have "(sf + 1) * hop \<le> (n - bms div hop) * hop"
    using hop by (simp only: mult_right_mono)
  then have "sf * hop + hop + (bms div hop) * hop \<le> n * hop"
    by (simp add: algebra_simps)
  moreover have "bms = (bms div hop) * hop + bms mod hop" by simp
  moreover have "bms mod hop < hop" using hop by simp
  ultimately show ?thesis by linarith
qed

text \<open>
  Claim C2, as stated, at a waveform longer than the window: three samples, one frame,
  \<open>hop_size = 2\<close> and \<open>batch_max_steps = 2\<close> satisfy \<open>len(waveform) \<ge> len(mel) * hop_size\<close>
  and \<open>len(mel) \<le> batch_max_frames\<close>, yet the padding amount \<open>2 - 3\<close> is negative and the
  collater raises instead of returning a window.
\<close>

theorem collater_pad_counterexample:
  "len_feats \<lparr>frames = [[1]], num_mels = 1\<rparr> * 2 \<le> int (length [5, 6, 7 :: real])
   \<and> len_feats \<lparr>frames = [[1]], num_mels = 1\<rparr> \<le> 2 div 2
   \<and> collater (\<lambda>lo hi. lo) [5, 6, 7] \<lparr>frames = [[1]], num_mels = 1\<rparr> (Some 2) 2
       = Inl (InvalidArgumentError ''Paddings must be non-negative'')"
  by (simp add: collater_def resolve_batch_max_steps_def floordiv_def align_audio_def
      tf_pad_def len_feats_def)

text \<open>
  Claim C2, amended: for a positive hop size, every waveform/feature pair with
  \<open>len(mel) * hop_size \<le> len(waveform) \<le> batch_max_steps\<close> and
  \<open>len(mel) \<le> batch_max_frames\<close> is returned as a waveform of length exactly
  \<open>batch_max_steps\<close> and a feature sequence of length exactly \<open>batch_max_frames\<close>: the
  original data followed by zeros only. Here \<open>bms\<close> is the value of \<open>batch_max_steps\<close>
  the collater works with (the argument, or the hop-aligned waveform length when the
  argument is \<open>None\<close>).
\<close>

theorem collater_pads_to_window:
  assumes hop: "0 < hop_size"
    and bms: "resolve_batch_max_steps audio batch_max_steps hop_size = Inr bms"
    and long: "len_feats mel * hop_size \<le> int (length audio)"
    and few: "len_feats mel \<le> bms div hop_size"
    and fits: "int (length audio) \<le> bms"
  shows "let audio_out = audio @ replicate (nat bms - length audio) 0;
             rows_out = frames mel @
               replicate (nat (bms div hop_size) - length (frames mel)) (zero_frame mel)
         in collater rng audio mel batch_max_steps hop_size
              = Inr (audio_out, mel\<lparr>frames := rows_out\<rparr>)
            \<and> int (length audio_out) = bms
            \<and> int (length rows_out) = bms div hop_size"
  using assms
  by (simp add: collater_def floordiv_def align_audio_def tf_pad_def len_feats_def
      nat_diff_distrib Let_def)

theorem collater_pads_to_window_witness:
  "collater (\<lambda>lo hi. lo) [5, 6] \<lparr>frames = [[1]], num_mels = 1\<rparr> (Some 5) 2
     = Inr ([5, 6, 0, 0, 0], \<lparr>frames = [[1], [0]], num_mels = 1\<rparr>)"
  using collater_pads_to_window
    [of 2 "[5, 6]" "Some 5" 5 "\<lparr>frames = [[1]], num_mels = 1\<rparr>" "\<lambda>lo hi. lo"]
  by (simp add: resolve_batch_max_steps_def len_feats_def zero_frame_def numeral_3_eq_3)

text \<open>
  Claim C3, as stated, at a waveform shorter than \<open>len(mel) * hop_size\<close>: three samples,
  three frames, \<open>hop_size = 2\<close>, \<open>batch_max_steps = 4\<close>. The only admissible start frame
  is 0, the window covers samples 0 to 3, and the original waveform has three samples:
  the fourth sample of the output is padding, not part of the original sequence.
\<close>

theorem collater_crop_counterexample:
  "len_feats \<lparr>frames = [[1], [2], [3]], num_mels = 1\<rparr> > 4 div 2
   \<and> collater (\<lambda>lo hi. lo) [5, 6, 7] \<lparr>frames = [[1], [2], [3]], num_mels = 1\<rparr> (Some 4) 2
       = Inr ([5, 6, 7, 0], \<lparr>frames = [[1], [2]], num_mels = 1\<rparr>)
   \<and> \<not> (0 * 2 + 4 \<le> int (length [5, 6, 7 :: real]))"
  by (simp add: collater_def resolve_batch_max_steps_def floordiv_def align_audio_def
      tf_pad_def len_feats_def random_uniform_def slice_def slice_bound_def)

text \<open>
  The reduction modulo the width of the range spreads the raw outputs evenly: among the
  first \<open>k * n\<close> raw outputs, exactly \<open>k\<close> give any one value of a range of width \<open>n\<close>.
\<close>

lemma residue_class_card:
  fixes n k s :: nat
  assumes s: "s < n"
  shows "card {r. r < k * n \<and> r mod n = s} = k"
proof (induction k)
  case 0
  then show ?case by simp
next
  case (Suc k)
  have fin: "finite {r. r < k * n \<and> r mod n = s}" by simp
  have new: "k * n + s \<notin> {r. r < k * n \<and> r mod n = s}" by simp
  have split: "{r. r < Suc k * n \<and> r mod n = s}
                 = insert (k * n + s) {r. r < k * n \<and> r mod n = s}"
  proof (rule set_eqI)
    fix r
    show "r \<in> {r. r < Suc k * n \<and> r mod n = s}
            \<longleftrightarrow> r \<in> insert (k * n + s) {r. r < k * n \<and> r mod n = s}"
    proof (cases "r < k * n")
      case True
      then show ?thesis using s by auto
    next
      case False
      then obtain d where d: "r = k * n + d" using le_Suc_ex by (metis not_less)
      have "d mod n = r mod n" by (simp add: d)
      then show ?thesis using False s d by auto
    qed
  qed
  show ?case by (simp only: split card_insert_disjoint [OF fin new] Suc.IH)
qed

lemma draws_evenly_spread:
  fixes n s :: int
  assumes "0 \<le> s" "s < n"
  shows "card {r::nat. r < k * nat n \<and> random_uniform (\<lambda>lo hi. int r) 0 n = Inr s} = k"
proof -
  have n: "0 < n" using assms by simp
  have "\<And>r::nat. random_uniform (\<lambda>lo hi. int r) 0 n = Inr s \<longleftrightarrow> r mod nat n = nat s"
  proof -
    fix r :: nat
    have "int r mod n = int (r mod nat n)" using n by (simp add: zmod_int)
    then show "random_uniform (\<lambda>lo hi. int r) 0 n = Inr s \<longleftrightarrow> r mod nat n = nat s"
      using n assms by (auto simp: random_uniform_def)
  qed
  then have "{r::nat. r < k * nat n \<and> random_uniform (\<lambda>lo hi. int r) 0 n = Inr s}
               = {r. r < k * nat n \<and> r mod nat n = nat s}" by simp
  moreover have "nat s < nat n" using assms by simp
  ultimately show ?thesis by (simp add: residue_class_card)
qed

text \<open>
  Claim C3, amended: for a positive hop size, a non-negative \<open>batch_max_steps\<close> and every
  input with \<open>len(mel) > batch_max_frames\<close> whose lengths stay within \<open>tf.int32\<close>
  (\<open>len(waveform)\<close> and \<open>len(mel) * hop_size\<close> below \<open>2 ^ 31\<close>), the collater picks a
  start frame uniformly at random in \<open>[0, len(mel) - batch_max_frames)\<close>: the raw output
  of the random generator reduced modulo the width of the range, which lies in the range
  and takes each of its values for equally many raw outputs. It returns the
  \<open>batch_max_steps\<close> samples starting at \<open>start_frame * hop_size\<close> and the
  \<open>batch_max_frames\<close> frames starting at \<open>start_frame\<close>; both windows are contiguous,
  aligned and fully contained, the feature window in the original features and the
  waveform window in the waveform as aligned (zero-padded to \<open>len(mel) * hop_size\<close>
  when shorter, the original waveform otherwise).
\<close>

theorem collater_crops_aligned_window:
  assumes hop: "0 < hop_size"
    and bms: "resolve_batch_max_steps audio batch_max_steps hop_size = Inr bms"
    and nonneg: "0 \<le> bms"
    and many: "bms div hop_size < len_feats mel"
    and audio32: "int (length audio) < 2 ^ 31"
    and mel32: "len_feats mel * hop_size < 2 ^ 31"
  shows "let batch_max_frames = bms div hop_size;
             interval_end = len_feats mel - batch_max_frames;
             start_frame = rng 0 interval_end mod interval_end;
             start_step = start_frame * hop_size;
             audio1 = audio @ replicate (nat (len_feats mel * hop_size - int (length audio))) 0;
             audio_out = take (nat bms) (drop (nat start_step) audio1);
             rows_out = take (nat batch_max_frames) (drop (nat start_frame) (frames mel))
         in collater rng audio mel batch_max_steps hop_size
              = Inr (audio_out, mel\<lparr>frames := rows_out\<rparr>)
            \<and> 0 \<le> start_frame \<and> start_frame < interval_end
            \<and> (\<forall>s k. 0 \<le> s \<and> s < interval_end \<longrightarrow>
                  card {r::nat. r < k * nat interval_end \<and>
                          random_uniform (\<lambda>lo hi. int r) 0 interval_end = Inr s} = k)
            \<and> start_step + bms \<le> int (length audio1)
            \<and> start_frame + batch_max_frames \<le> len_feats mel
            \<and> int (length audio_out) = bms
            \<and> int (length rows_out) = batch_max_frames
            \<and> int (length audio1) < 2 ^ 31
            \<and> (len_feats mel * hop_size \<le> int (length audio) \<longrightarrow> audio1 = audio)"
proof -
  define bmf where "bmf = bms div hop_size"
  define n where "n = len_feats mel - bmf"
  define sf where "sf = rng 0 n mod n"
  define audio1 where
    "audio1 = audio @ replicate (nat (len_feats mel * hop_size - int (length audio))) 0"
  have n0: "0 < n" using many by (simp add: n_def bmf_def)
  have bmf0: "0 \<le> bmf" using hop nonneg by (simp add: bmf_def pos_imp_zdiv_nonneg_iff)
  have sf0: "0 \<le> sf" and sf1: "sf < len_feats mel - bmf"
    using n0 by (simp_all add: sf_def n_def [symmetric])
  have len1: "len_feats mel * hop_size \<le> int (length audio1)"
    by (simp add: audio1_def)
  have small: "int (length audio1) < 2 ^ 31"
    using audio32 mel32 by (simp add: audio1_def)
  have fit: "sf * hop_size + bms \<le> len_feats mel * hop_size"
    using window_fits [OF hop, of sf "len_feats mel" bms] sf1 by (simp add: bmf_def)
  have step0: "0 \<le> sf * hop_size" using sf0 hop by simp
  have inside: "sf * hop_size + bms \<le> int (length audio1)" using fit len1 by linarith
  have inside_mel: "sf + bmf \<le> int (length (frames mel))"
    using sf1 by (simp add: len_feats_def)
  have a: "slice audio1 (sf * hop_size) (sf * hop_size + bms) =
             take (nat bms) (drop (nat (sf * hop_size)) audio1)"
    by (rule slice_window [OF step0 nonneg inside])
  have m: "slice (frames mel) sf (sf + bmf) = take (nat bmf) (drop (nat sf) (frames mel))"
    by (rule slice_window [OF sf0 bmf0 inside_mel])
  have al: "align_audio audio mel hop_size = Inr audio1"
    using align_audio_value [OF hop] by (simp add: audio1_def)
  have draw: "random_uniform rng 0 n = Inr sf"
    using n0 by (simp add: random_uniform_def sf_def)
  have run: "collater rng audio mel batch_max_steps hop_size =
      Inr (take (nat bms) (drop (nat (sf * hop_size)) audio1),
           mel\<lparr>frames := take (nat bmf) (drop (nat sf) (frames mel))\<rparr>)"
    using hop bms many a m al draw
    by (simp add: collater_def floordiv_def Let_def bmf_def [symmetric] n_def [symmetric])
  have la: "int (length (take (nat bms) (drop (nat (sf * hop_size)) audio1))) = bms"
    using inside step0 nonneg by simp
  have lm: "int (length (take (nat bmf) (drop (nat sf) (frames mel)))) = bmf"
    using inside_mel sf0 bmf0 by simp
  have same: "len_feats mel * hop_size \<le> int (length audio) \<longrightarrow> audio1 = audio"
    by (simp add: audio1_def)
  have even: "\<forall>s k. 0 \<le> s \<and> s < n \<longrightarrow>
      card {r::nat. r < k * nat n \<and> random_uniform (\<lambda>lo hi. int r) 0 n = Inr s} = k"
    using draws_evenly_spread by blast
  show ?thesis
    unfolding Let_def bmf_def [symmetric] n_def [symmetric] sf_def [symmetric]
      audio1_def [symmetric]
    using run sf0 sf1 inside la lm same even small by (simp add: n_def)
qed

theorem collater_crops_aligned_window_witness:
  "collater (\<lambda>lo hi. 7) [1, 2, 3, 4, 5, 6, 7]
       \<lparr>frames = [[1], [2], [3]], num_mels = 1\<rparr> (Some 3) 2
     = Inr ([3, 4, 5], \<lparr>frames = [[2]], num_mels = 1\<rparr>)"
proof -
  have h: "(0::int) < 2"
    "resolve_batch_max_steps [1, 2, 3, 4, 5, 6, 7] (Some 3) 2 = Inr 3"
    "(0::int) \<le> 3"
    "3 div 2 < len_feats \<lparr>frames = [[1], [2], [3]], num_mels = 1\<rparr>"
    "int (length [1, 2, 3, 4, 5, 6, 7 :: real]) < 2 ^ 31"
    "len_feats \<lparr>frames = [[1], [2], [3]], num_mels = 1\<rparr> * 2 < 2 ^ 31"
    by (simp_all add: resolve_batch_max_steps_def len_feats_def)
  from collater_crops_aligned_window [OF h, of "\<lambda>lo hi. 7"]
  have "collater (\<lambda>lo hi. 7) [1, 2, 3, 4, 5, 6, 7]
          \<lparr>frames = [[1], [2], [3]], num_mels = 1\<rparr> (Some 3) 2
        = Inr (take (nat 3) (drop (nat ((7 mod (3 - 3 div 2)) * 2)) [1, 2, 3, 4, 5, 6, 7]),
               \<lparr>frames = take (nat (3 div 2)) (drop (nat (7 mod (3 - 3 div 2))) [[1], [2], [3]]),
                num_mels = 1\<rparr>)"
    by (simp add: Let_def len_feats_def)
  then show ?thesis by simp
qed

section \<open>The running means\<close>

lemma map_of_reset_all: "map_of (reset_all ms) name = map_option reset_states (map_of ms name)"
  by (induction ms) (auto simp: reset_all_def)

lemma keys_reset_all: "fst ` set (reset_all ms) = fst ` set ms"
  by (force simp: reset_all_def)

lemma metric_update_ok:
  "name \<in> fst ` set ms \<Longrightarrow>
   \<exists>m. map_of ms name = Some m \<and>
       metric_update ms name v = Inr (AList.update name (update_state m v) ms)"
proof -
  assume "name \<in> fst ` set ms"
  then obtain m where "map_of ms name = Some m"
    by (metis domD dom_map_of_conv_image_fst)
  then show ?thesis by (simp add: metric_update_def)
qed

lemma metric_updates_acc:
  assumes "fst ` set us \<subseteq> fst ` set ms" and "map_of ms name = Some m"
  shows "\<exists>ms' m'. metric_updates ms us = Inr ms' \<and> map_of ms' name = Some m' \<and>
           m_total m' = m_total m + sum_list (map snd (filter (\<lambda>u. fst u = name) us)) \<and>
           m_count m' = m_count m + real (length (filter (\<lambda>u. fst u = name) us))"
  using assms
proof (induction us arbitrary: ms m)
  case Nil
  then show ?case by simp
next
  case (Cons u us)
  obtain n v where u: "u = (n, v)" by (cases u)
  from Cons.prems(1) u have n: "n \<in> fst ` set ms" by auto
  from metric_update_ok [OF n] obtain m0 where
    m0: "map_of ms n = Some m0" and
    step: "metric_update ms n v = Inr (AList.update n (update_state m0 v) ms)" by blast
  define ms1 where "ms1 = AList.update n (update_state m0 v) ms"
  have step1: "metric_updates ms (u # us) = metric_updates ms1 us"
    using step u by (simp add: ms1_def)
  have keys: "fst ` set us \<subseteq> fst ` set ms1"
    using Cons.prems(1) by (auto simp: ms1_def AList.dom_update)
  show ?case
  proof (cases "n = name")
    case True
    then have m0m: "m0 = m" using m0 Cons.prems(2) by simp
    have look: "map_of ms1 name = Some (update_state m v)"
      using True m0m by (simp add: ms1_def AList.update_conv')
    from Cons.IH [OF keys look] obtain ms' m' where
      "metric_updates ms1 us = Inr ms'" "map_of ms' name = Some m'"
      "m_total m' = m_total (update_state m v) + sum_list (map snd (filter (\<lambda>u. fst u = name) us))"
      "m_count m' = m_count (update_state m v) + real (length (filter (\<lambda>u. fst u = name) us))"
      by blast
    then show ?thesis unfolding step1 using True u
      by (simp add: update_state_def)
  next
    case False
    have look: "map_of ms1 name = Some m"
      using False Cons.prems(2) by (simp add: ms1_def AList.update_conv')
    from Cons.IH [OF keys look] obtain ms' m' where
      "metric_updates ms1 us = Inr ms'" "map_of ms' name = Some m'"
      "m_total m' = m_total m + sum_list (map snd (filter (\<lambda>u. fst u = name) us))"
      "m_count m' = m_count m + real (length (filter (\<lambda>u. fst u = name) us))"
      by blast
    then show ?thesis unfolding step1 using False u
      by simp
  qed
qed

text \<open>
  Claim C5: for every registered metric name and every finite sequence of update calls
  made since the last reset, in which the calls for that name carry the values
  \<open>vs = [v1..vn]\<close> (calls for other registered metrics may come in between),
  \<open>result()\<close> is the arithmetic mean \<open>(v1 + .. + vn) / n\<close>; and after a reset a single
  \<open>update(v)\<close> makes \<open>result()\<close> equal \<open>v\<close>.
\<close>

theorem running_mean_after_reset:
  assumes reg: "name \<in> fst ` set ms"
    and known: "fst ` set us \<subseteq> fst ` set ms"
    and vs: "vs = map snd (filter (\<lambda>u. fst u = name) us)"
    and some: "vs \<noteq> []"
  shows "(\<exists>ms'. metric_updates (reset_all ms) us = Inr ms' \<and>
                metric_result ms' name = Inr (sum_list vs / real (length vs)))
       \<and> (\<exists>ms1. metric_update (reset_all ms) name v = Inr ms1 \<and>
                metric_result ms1 name = Inr v)"
proof
  from reg obtain m where m: "map_of ms name = Some m"
    by (metis domD dom_map_of_conv_image_fst)
  have look: "map_of (reset_all ms) name = Some (reset_states m)"
    using m by (simp add: map_of_reset_all)
  have known': "fst ` set us \<subseteq> fst ` set (reset_all ms)"
    using known by (simp add: keys_reset_all)
  from metric_updates_acc [OF known' look] obtain ms' m' where
    run: "metric_updates (reset_all ms) us = Inr ms'" and m': "map_of ms' name = Some m'" and
    tot: "m_total m' = sum_list vs" and cnt: "m_count m' = real (length vs)"
    by (auto simp: vs reset_states_def)
  have "length vs \<noteq> 0" using some by simp
  then have "metric_result ms' name = Inr (sum_list vs / real (length vs))"
    using m' tot cnt by (simp add: metric_result_def result_def)
  with run show "\<exists>ms'. metric_updates (reset_all ms) us = Inr ms' \<and>
                metric_result ms' name = Inr (sum_list vs / real (length vs))" by blast
  have reg': "name \<in> fst ` set (reset_all ms)" using reg by (simp add: keys_reset_all)
  from metric_update_ok [OF reg', of v] look
  have step: "metric_update (reset_all ms) name v =
                Inr (AList.update name (update_state (reset_states m) v) (reset_all ms))"
    by simp
  have "metric_result (AList.update name (update_state (reset_states m) v) (reset_all ms)) name
          = Inr v"
    by (simp add: metric_result_def AList.update_conv' result_def update_state_def reset_states_def)
  with step show "\<exists>ms1. metric_update (reset_all ms) name v = Inr ms1 \<and>
                metric_result ms1 name = Inr v" by simp
qed


theorem running_mean_after_reset_witness:
  "(case metric_updates
           (reset_all [(''fm_loss'', \<lparr>metric_name = ''train_fm_loss'', m_total = 7, m_count = 3\<rparr>),
                       (''gen_loss'', Mean ''train_gen_loss'')])
           [(''fm_loss'', 1), (''gen_loss'', 10), (''fm_loss'', 2)] of
      Inl e \<Rightarrow> Inl e
    | Inr ms' \<Rightarrow> metric_result ms' ''fm_loss'') = Inr (3 / 2)"
proof -
  define ms :: metrics where
    "ms = [(''fm_loss'', \<lparr>metric_name = ''train_fm_loss'', m_total = 7, m_count = 3\<rparr>),
           (''gen_loss'', Mean ''train_gen_loss'')]"
  define us :: "(string \<times> real) list" where
    "us = [(''fm_loss'', 1), (''gen_loss'', 10), (''fm_loss'', 2)]"
  have reg: "''fm_loss'' \<in> fst ` set ms" by (simp add: ms_def)
  have known: "fst ` set us \<subseteq> fst ` set ms" by (simp add: ms_def us_def)
  have vs: "[1, 2 :: real] = map snd (filter (\<lambda>u. fst u = ''fm_loss'') us)"
    by (simp add: us_def)
  have some: "[1, 2 :: real] \<noteq> []" by simp
  from running_mean_after_reset [OF reg known vs some, of 0] obtain ms' where
    "metric_updates (reset_all ms) us = Inr ms'"
    "metric_result ms' ''fm_loss'' = Inr (sum_list [1, 2] / real (length [1, 2 :: real]))"
    by blast
  then show ?thesis unfolding ms_def [symmetric] us_def [symmetric] by simp
qed

section \<open>The feature-matching loss\<close>

lemma mae_error_same: "mae_error a a = 0"
proof -
  have "map2 (\<lambda>x y. \<bar>x - y\<bar>) a a = map (\<lambda>x. 0::real) a"
    by (simp add: zip_same_conv_map)
  then show ?thesis by (simp add: mae_error_def reduce_mean_def)
qed

lemma adv_loss_loop_ok:
  "\<forall>i\<in>set is. i < length p_hat \<Longrightarrow> \<forall>s\<in>set p_hat. s \<noteq> [] \<Longrightarrow>
   \<exists>r. adv_loss_loop p_hat is acc = Inr r"
  by (induction "is" arbitrary: acc) (auto simp: decision_def getitem_def last_item_def)

lemma fm_inner_loop_same:
  assumes i: "i < length p_hat" and same: "map butlast p = map butlast p_hat"
    and js: "\<forall>j\<in>set js. j < length (p_hat ! i) - 1"
  shows "fm_inner_loop p_hat p wt i js fm = Inr fm"
  using js
proof (induction js)
  case Nil
  then show ?case by simp
next
  case (Cons j js)
  have len: "length p = length p_hat" using same by (metis length_map)
  have bl: "butlast (p ! i) = butlast (p_hat ! i)"
    using same i len by (metis nth_map)
  from Cons.prems have j: "j < length (p_hat ! i) - 1" by simp
  then have j': "j < length (p ! i) - 1" using bl by (metis length_butlast)
  have "p ! i ! j = butlast (p ! i) ! j" using j' by (simp add: nth_butlast)
  also have "\<dots> = p_hat ! i ! j" using j by (simp add: bl nth_butlast)
  finally have eq: "p ! i ! j = p_hat ! i ! j" .
  have a: "getitem2 p_hat i j = Inr (p_hat ! i ! j)"
    using i j by (simp add: getitem2_def getitem_def)
  have b: "getitem2 p i j = Inr (p_hat ! i ! j)"
    using i len j' eq by (simp add: getitem2_def getitem_def)
  show ?case using Cons a b by (simp add: mae_error_same)
qed

lemma fm_loss_loop_same:
  assumes same: "map butlast p = map butlast p_hat"
    and "is": "\<forall>i\<in>set is. i < length p_hat"
  shows "fm_loss_loop p_hat p wt is fm = Inr fm"
  using "is"
proof (induction "is")
  case Nil
  then show ?case by simp
next
  case (Cons i "is")
  then have i: "i < length p_hat" by simp
  have inner: "fm_inner_loop p_hat p wt i [0..<length (p_hat ! i) - 1] fm = Inr fm"
    by (rule fm_inner_loop_same [OF i same]) simp
  show ?case using Cons i inner by (simp add: getitem_def)
qed

text \<open>
  Claim C6: with \<open>scales = 1\<close> and one entry in \<open>downsample_scales\<close> the weight \<open>wt\<close>
  is 2; and for discriminator outputs in which \<open>p\<close> and \<open>p_hat\<close> agree on every
  intermediate layer (every scale of \<open>p_hat\<close> ending in its decision, every tensor
  non-empty), \<open>fm_loss\<close> is 0 and \<open>gen_loss\<close> is \<open>adv_loss\<close>.
\<close>

theorem matching_features_give_adv_loss:
  assumes one_scale: "scales cfg = 1"
    and one_down: "length (downsample_scales cfg) = 1"
    and decided: "\<forall>s\<in>set p_hat. s \<noteq> []"
    and filled: "\<forall>s\<in>set p_hat. \<forall>t\<in>set s. t \<noteq> []"
    and same: "map butlast p = map butlast p_hat"
  shows "feature_weight cfg = Inr 2
       \<and> (\<exists>adv_loss. generator_losses cfg p_hat p = Inr (adv_loss, 0, adv_loss))"
proof -
  have wt: "feature_weight cfg = Inr 2"
    using one_scale one_down by (simp add: feature_weight_def)
  obtain adv_loss where adv: "adv_loss_loop p_hat [0..<length p_hat] 0 = Inr adv_loss"
    using adv_loss_loop_ok [of "[0..<length p_hat]" p_hat 0] decided by auto
  have fm: "fm_loss_loop p_hat p 2 [0..<length p_hat] 0 = Inr 0"
    by (rule fm_loss_loop_same [OF same]) simp
  have "generator_losses cfg p_hat p = Inr (adv_loss, 0, adv_loss)"
    by (simp add: generator_losses_def adv wt fm)
  with wt show ?thesis by blast
qed


theorem matching_features_give_adv_loss_witness:
  "feature_weight example_config = Inr 2
   \<and> generator_losses example_config [[[1, 2], [- 1, 3]]] [[[1, 2], [5]]] = Inr (1 / 2, 0, 1 / 2)"
proof -
  define p_hat :: dis_out where "p_hat = [[[1, 2], [- 1, 3]]]"
  define p :: dis_out where "p = [[[1, 2], [5]]]"
  have h: "scales example_config = 1" "length (downsample_scales example_config) = 1"
    "\<forall>s\<in>set p_hat. s \<noteq> []" "\<forall>s\<in>set p_hat. \<forall>t\<in>set s. t \<noteq> []"
    "map butlast p = map butlast p_hat"
    by (simp_all add: example_config_def p_hat_def p_def)
  from matching_features_give_adv_loss [OF h] obtain adv_loss where
    wt: "feature_weight example_config = Inr 2" and
    g: "generator_losses example_config p_hat p = Inr (adv_loss, 0, adv_loss)"
    by blast
  have "adv_loss_loop p_hat [0..<length p_hat] 0 = Inr (1 / 2)"
    by (simp add: p_hat_def decision_def getitem_def last_item_def melgan_relu_error_def
        reduce_mean_def)
  then have "adv_loss = 1 / 2"
    using g by (simp add: generator_losses_def split: sum.splits)
  then show ?thesis using wt g by (simp add: p_hat_def p_def)
qed

section \<open>Outcomes\<close>

lemma raised_NoneD: "raised r = None \<Longrightarrow> \<exists>x. r = Inr x"
  by (cases r) (auto simp: raised_def)

section \<open>What a training step does to the counters\<close>

lemma record_train_counters: "counters (final_trainer (record_train st us)) = counters st"
proof (induction us arbitrary: st)
  case Nil
  then show ?case by (simp add: final_trainer_def)
next
  case (Cons u us)
  obtain name v where u: "u = (name, v)" by (cases u)
  show ?case
  proof (cases "metric_update (train_metrics st) name v")
    case (Inl e)
    then show ?thesis using u by (simp add: final_trainer_def)
  next
    case (Inr ms)
    have "counters (final_trainer (record_train (st\<lparr>train_metrics := ms\<rparr>) us))
            = counters (st\<lparr>train_metrics := ms\<rparr>)"
      by (rule Cons.IH)
    then show ?thesis using u Inr by (simp add: counters_def)
  qed
qed

lemma record_train_Inl: "record_train st us = Inl (e, st') \<Longrightarrow> counters st' = counters st"
  using record_train_counters [of st us] by (simp add: final_trainer_def)

lemma record_train_Inr: "record_train st us = Inr st' \<Longrightarrow> counters st' = counters st"
  using record_train_counters [of st us] by (simp add: final_trainer_def)

lemma one_step_generator_Inl:
  "one_step_generator env st y mels = Inl (e, st') \<Longrightarrow> counters st' = counters st"
  unfolding one_step_generator_def Let_def
  by (auto split: sum.splits prod.splits if_splits dest!: record_train_Inl
      simp: counters_def)

lemma one_step_generator_Inr:
  "one_step_generator env st y mels = Inr (st', out) \<Longrightarrow> counters st' = counters st"
  unfolding one_step_generator_def Let_def
  by (auto split: sum.splits prod.splits if_splits dest!: record_train_Inr
      simp: counters_def)

lemma one_step_discriminator_Inl:
  "one_step_discriminator env st y y_hat = Inl (e, st') \<Longrightarrow> counters st' = counters st"
  unfolding one_step_discriminator_def Let_def
  by (auto split: sum.splits prod.splits if_splits dest!: record_train_Inl
      simp: counters_def)

lemma one_step_discriminator_Inr:
  "one_step_discriminator env st y y_hat = Inr st' \<Longrightarrow> counters st' = counters st"
  unfolding one_step_discriminator_def Let_def
  by (auto split: sum.splits prod.splits if_splits dest!: record_train_Inr
      simp: counters_def)

lemma train_step_Inl:
  assumes "train_step env st batch = Inl (e, st')"
  shows "counters st' = counters st"
proof -
  obtain y mels where b: "batch = (y, mels)" by (cases batch)
  show ?thesis
  proof (cases "one_step_generator env st y mels")
    case (Inl x)
    then show ?thesis using assms b one_step_generator_Inl [of env st y mels e st']
      by (simp add: train_step_def)
  next
    case (Inr r)
    obtain st1 y1 y_hat where r: "r = (st1, y1, y_hat)" by (cases r)
    have c1: "counters st1 = counters st"
      using Inr r one_step_generator_Inr by blast
    from assms b Inr r have "one_step_discriminator env st1 y1 y_hat = Inl (e, st')"
      by (simp add: train_step_def split: sum.splits)
    then show ?thesis using one_step_discriminator_Inl c1 by metis
  qed
qed

lemma train_step_Inr:
  assumes "train_step env st batch = Inr st'"
  shows "steps st' = steps st + 1 \<and> config st' = config st \<and>
         (finish_train st' \<longleftrightarrow> finish_train st \<or> train_max_steps (config st) \<le> steps st + 1)"
proof -
  obtain y mels where b: "batch = (y, mels)" by (cases batch)
  from assms b obtain st1 y1 y_hat st2 where
    g: "one_step_generator env st y mels = Inr (st1, y1, y_hat)" and
    d: "one_step_discriminator env st1 y1 y_hat = Inr st2" and
    r: "st' = check_train_finish (st2\<lparr>steps := steps st2 + 1, tqdm_n := tqdm_n st2 + 1\<rparr>)"
    by (auto simp: train_step_def split: sum.splits prod.splits)
  have "counters st2 = counters st"
    using one_step_generator_Inr [OF g] one_step_discriminator_Inr [OF d] by simp
  then show ?thesis using r by (auto simp: counters_def check_train_finish_def)
qed

lemma train_batches_counts:
  "case train_batches env st batches of
     Inr st' \<Rightarrow>
       steps st' = steps st + int (length batches) \<and> config st' = config st \<and>
       (finish_train st' \<longleftrightarrow> finish_train st \<or>
          (batches \<noteq> [] \<and> train_max_steps (config st) \<le> steps st + int (length batches)))
   | Inl (e, st') \<Rightarrow>
       (\<exists>n<length batches. steps st' = steps st + int n \<and> config st' = config st \<and>
          (finish_train st' \<longleftrightarrow> finish_train st \<or>
             (0 < n \<and> train_max_steps (config st) \<le> steps st + int n)))"
proof (induction batches arbitrary: st)
  case Nil
  then show ?case by simp
next
  case (Cons b batches)
  show ?case
  proof (cases "train_step env st b")
    case (Inl x)
    obtain e st' where x: "x = (e, st')" by (cases x)
    have "counters st' = counters st" using Inl x train_step_Inl by blast
    then have "steps st' = steps st + int 0 \<and> config st' = config st \<and>
          (finish_train st' \<longleftrightarrow> finish_train st \<or>
             ((0::nat) < 0 \<and> train_max_steps (config st) \<le> steps st + int 0))"
      by (simp add: counters_def)
    then show ?thesis using Inl x by (auto simp del: of_nat_0)
  next
    case (Inr s1)
    from train_step_Inr [OF Inr] have
      s: "steps s1 = steps st + 1" and c: "config s1 = config st" and
      f: "finish_train s1 \<longleftrightarrow> finish_train st \<or> train_max_steps (config st) \<le> steps st + 1"
      by simp_all
    show ?thesis
    proof (cases "train_batches env s1 batches")
      case (Inl x)
      obtain e st' where x: "x = (e, st')" by (cases x)
      from Cons.IH [of s1] Inl x obtain n where
        n: "n < length batches" and
        ns: "steps st' = steps s1 + int n" and nc: "config st' = config s1" and
        nf: "finish_train st' \<longleftrightarrow> finish_train s1 \<or>
               (0 < n \<and> train_max_steps (config s1) \<le> steps s1 + int n)"
        by auto
      have "Suc n < length (b # batches) \<and> steps st' = steps st + int (Suc n) \<and>
            config st' = config st \<and>
            (finish_train st' \<longleftrightarrow> finish_train st \<or>
               (0 < Suc n \<and> train_max_steps (config st) \<le> steps st + int (Suc n)))"
        using n ns nc nf s c f by auto
      then show ?thesis using \<open>train_step env st b = Inr s1\<close> Inl x by auto
    next
      case (Inr st')
      from Cons.IH [of s1] Inr have
        "steps st' = steps s1 + int (length batches)" "config st' = config s1"
        "finish_train st' \<longleftrightarrow> finish_train s1 \<or>
           (batches \<noteq> [] \<and> train_max_steps (config s1) \<le> steps s1 + int (length batches))"
        by simp_all
      then show ?thesis using \<open>train_step env st b = Inr s1\<close> Inr s c f by auto
    qed
  qed
qed


section \<open>The discriminator step without mixed precision\<close>

text \<open>
  Claim C1 says that with discriminator mixed precision disabled the step applies the
  gradient of the unscaled \<open>dis_loss\<close> and completes. The source reads
  \<open>scaled_dis_loss\<close> on that path, a variable bound only under mixed precision: with
  the flag off, the step never completes. It raises whatever the loss computation
  raises, or else \<open>UnboundLocalError\<close>, and applies no gradient (the trainer is
  unchanged).
\<close>

theorem discriminator_step_unbound_loss:
  assumes off: "\<not> is_discriminator_mixed_precision st"
  shows "case discriminator_losses (discriminator env (dis_vars st) (expand_dims y))
                (discriminator env (dis_vars st) y_hat) of
           Inl e \<Rightarrow> one_step_discriminator env st y y_hat = Inl (e, st)
         | Inr losses \<Rightarrow>
             one_step_discriminator env st y y_hat
               = Inl (UnboundLocalError ''scaled_dis_loss'', st)"
  using off
  by (simp add: one_step_discriminator_def read_local_def Let_def split: sum.splits prod.splits)

theorem discriminator_step_unbound_loss_witness:
  "one_step_discriminator example_env (example_trainer False) [[1, 2]] [[0, 0]]
     = Inl (UnboundLocalError ''scaled_dis_loss'', example_trainer False)"
proof -
  have off: "\<not> is_discriminator_mixed_precision (example_trainer False)"
    by (simp add: example_trainer_def MelganTrainer_def init_train_eval_metrics_def
        reset_states_train_def reset_states_eval_def split: prod.splits)
  have vars: "dis_vars (example_trainer False) = 1"
    by (simp add: example_trainer_def MelganTrainer_def init_train_eval_metrics_def
        reset_states_train_def reset_states_eval_def split: prod.splits)
  have losses: "discriminator_losses (discriminator example_env 1 (expand_dims [[1, 2]]))
                  (discriminator example_env 1 [[0, 0]]) = Inr (0, 1, 1)"
    by (simp add: example_env_def expand_dims_def discriminator_losses_def decision_def
        getitem_def last_item_def melgan_relu_error_def reduce_mean_def)
  show ?thesis
    using discriminator_step_unbound_loss [OF off, of example_env "[[1, 2]]" "[[0, 0]]"]
    by (simp add: vars losses)
qed

section \<open>Counting training steps\<close>

text \<open>
  Claim C4: in every training run the counter \<open>steps\<close> grows by exactly one with each
  batch whose training step is carried out and never decreases, and \<open>finish_train\<close>
  becomes true exactly at the first batch after which \<open>steps \<ge> train_max_steps\<close>, not
  before, and stays true. For a run over \<open>batches\<close> that returns, the counter has grown
  by their number; a run in which a step raises stops there, with the \<open>n\<close> steps
  completed before counted. As the statement holds for every list of batches, it
  describes the trainer after every prefix of a run.
\<close>

theorem steps_count_consumed_batches:
  "case train_batches env st batches of
     Inr st' \<Rightarrow>
       steps st' = steps st + int (length batches) \<and>
       (finish_train st' \<longleftrightarrow> finish_train st \<or>
          (batches \<noteq> [] \<and> train_max_steps (config st) \<le> steps st + int (length batches)))
   | Inl (e, st') \<Rightarrow>
       (\<exists>n<length batches. steps st' = steps st + int n \<and>
          (finish_train st' \<longleftrightarrow> finish_train st \<or>
             (0 < n \<and> train_max_steps (config st) \<le> steps st + int n)))"
  using train_batches_counts [where env = env and st = st and batches = batches]
  by (auto split: sum.splits)

theorem steps_count_consumed_batches_witness:
  "steps (final_trainer (train_batches example_env (example_trainer True) [example_batch])) = 1
   \<and> \<not> finish_train (final_trainer
         (train_batches example_env (example_trainer True) [example_batch]))
   \<and> steps (final_trainer (train_batches example_env (example_trainer True)
         [example_batch, example_batch])) = 2
   \<and> finish_train (final_trainer (train_batches example_env (example_trainer True)
         [example_batch, example_batch]))"
proof -
  have "raised (train_batches example_env (example_trainer True) [example_batch]) = None"
    by code_simp
  then obtain s1 where
    r1: "train_batches example_env (example_trainer True) [example_batch] = Inr s1"
    by (auto dest: raised_NoneD)
  have "raised (train_batches example_env (example_trainer True)
              [example_batch, example_batch]) = None"
    by code_simp
  then obtain s2 where
    r2: "train_batches example_env (example_trainer True) [example_batch, example_batch] = Inr s2"
    by (auto dest: raised_NoneD)
  have s0: "steps (example_trainer True) = 0" "\<not> finish_train (example_trainer True)"
    "train_max_steps (config (example_trainer True)) = 2"
    by code_simp+
  have a: "steps s1 = 1 \<and> \<not> finish_train s1"
    using steps_count_consumed_batches
      [where env = example_env and st = "example_trainer True" and batches = "[example_batch]",
        unfolded r1]
    by (simp add: s0)
  have b: "steps s2 = 2 \<and> finish_train s2"
    using steps_count_consumed_batches
      [where env = example_env and st = "example_trainer True"
         and batches = "[example_batch, example_batch]", unfolded r2]
    by (simp add: s0)
  show ?thesis unfolding r1 r2 using a b by (simp add: final_trainer_def)
qed

section \<open>Interrupting the training\<close>

text \<open>
  Claim C8: when the training run is interrupted by the operator, that is, when
  \<open>trainer.run()\<close> raises \<open>KeyboardInterrupt\<close>, \<open>main\<close> saves a checkpoint of the trainer
  as the interruption left it, with its current \<open>steps\<close> counter, logs it, and returns.
\<close>

theorem interrupt_saves_checkpoint:
  assumes "run trainer = Inl (KeyboardInterrupt, t)"
  shows "\<exists>t'. start_training run trainer = Inr t'
          \<and> events t' = events t @
              [CheckpointSaved (steps t) (epochs t) (gen_vars t) (dis_vars t)
                 (gen_optimizer t) (dis_optimizer t),
               LogCheckpointSaved (steps t)]
          \<and> steps t' = steps t \<and> epochs t' = epochs t
          \<and> gen_vars t' = gen_vars t \<and> dis_vars t' = dis_vars t"
  using assms by (simp add: start_training_def save_checkpoint_def emit_def Let_def)

theorem interrupt_saves_checkpoint_witness:
  "events (final_trainer (start_training
      (\<lambda>st. case train_batches example_env st [example_batch] of
               Inl x \<Rightarrow> Inl x | Inr st' \<Rightarrow> Inl (KeyboardInterrupt, st'))
      (example_trainer True)))
    = [CheckpointSaved 1 0 0 (7 / 10) 1 1, LogCheckpointSaved 1]"
proof -
  define run :: "(real, nat) trainer \<Rightarrow> (real, nat, (real, nat) trainer) outcome" where
    "run = (\<lambda>st. case train_batches example_env st [example_batch] of
               Inl x \<Rightarrow> Inl x | Inr st' \<Rightarrow> Inl (KeyboardInterrupt, st'))"
  have "raised (train_batches example_env (example_trainer True) [example_batch]) = None"
    by code_simp
  then obtain t where
    tb: "train_batches example_env (example_trainer True) [example_batch] = Inr t"
    by (auto dest: raised_NoneD)
  have r: "run (example_trainer True) = Inl (KeyboardInterrupt, t)"
    unfolding run_def tb by simp
  have "events (final_trainer (train_batches example_env (example_trainer True) [example_batch])) = []
      \<and> steps (final_trainer (train_batches example_env (example_trainer True) [example_batch])) = 1
      \<and> epochs (final_trainer (train_batches example_env (example_trainer True) [example_batch])) = 0
      \<and> gen_vars (final_trainer (train_batches example_env (example_trainer True) [example_batch])) = 0
      \<and> dis_vars (final_trainer (train_batches example_env (example_trainer True) [example_batch])) = 7 / 10
      \<and> gen_optimizer (final_trainer (train_batches example_env (example_trainer True) [example_batch])) = 1
      \<and> dis_optimizer (final_trainer (train_batches example_env (example_trainer True) [example_batch])) = 1"
    by code_simp
  then have vals: "events t = []" "steps t = 1" "epochs t = 0" "gen_vars t = 0"
    "dis_vars t = 7 / 10" "gen_optimizer t = 1" "dis_optimizer t = 1"
    unfolding tb by (simp_all add: final_trainer_def)
  from interrupt_saves_checkpoint [of run "example_trainer True" t, OF r] obtain t' where
    "start_training run (example_trainer True) = Inr t'"
    "events t' = events t @
       [CheckpointSaved (steps t) (epochs t) (gen_vars t) (dis_vars t)
          (gen_optimizer t) (dis_optimizer t), LogCheckpointSaved (steps t)]"
    by blast
  then show ?thesis
    unfolding run_def [symmetric] by (simp add: vals final_trainer_def)
qed


section \<open>The evaluation epoch\<close>

lemma raised_SomeD: "raised r = Some e \<Longrightarrow> \<exists>st. r = Inl (e, st)"
  by (cases r) (auto simp: raised_def)

lemma adv_loss_loop_error: "adv_loss_loop p_hat is acc = Inl e \<Longrightarrow> e = IndexError"
  by (induction "is" arbitrary: acc)
     (auto simp: decision_def getitem_def last_item_def split: sum.splits if_splits)

lemma fm_inner_loop_error: "fm_inner_loop p_hat p wt i js fm = Inl e \<Longrightarrow> e = IndexError"
  by (induction js arbitrary: fm)
     (auto simp: getitem2_def getitem_def split: sum.splits if_splits)

lemma fm_loss_loop_error: "fm_loss_loop p_hat p wt is fm = Inl e \<Longrightarrow> e = IndexError"
  by (induction "is" arbitrary: fm)
     (auto simp: getitem_def split: sum.splits if_splits dest: fm_inner_loop_error)

lemma generator_losses_error:
  "generator_losses cfg p_hat p = Inl e \<Longrightarrow> \<not> is_unbound_local e"
  by (auto simp: generator_losses_def feature_weight_def Let_def
      split: sum.splits if_splits dest: adv_loss_loop_error fm_loss_loop_error)

lemma dis_loss_loop_error: "dis_loss_loop p p_hat is acc = Inl e \<Longrightarrow> e = IndexError"
  by (induction p p_hat "is" acc rule: dis_loss_loop.induct)
     (auto simp: decision_def getitem_def last_item_def split: sum.splits if_splits)

lemma discriminator_losses_error:
  "discriminator_losses p p_hat = Inl e \<Longrightarrow> \<not> is_unbound_local e"
  by (auto simp: discriminator_losses_def split: sum.splits prod.splits
      dest: dis_loss_loop_error)

lemma record_eval_error: "record_eval st us = Inl (e, st') \<Longrightarrow> \<not> is_unbound_local e"
  by (induction st us rule: record_eval.induct)
     (auto simp: metric_update_def split: sum.splits option.splits)

lemma eval_step_error: "eval_step env st batch = Inl (e, st') \<Longrightarrow> \<not> is_unbound_local e"
  unfolding eval_step_def Let_def
  by (auto simp del: record_eval.simps split: prod.splits sum.splits
      dest: generator_losses_error discriminator_losses_error record_eval_error)

text \<open>An export writes files and nothing else: it leaves the metrics alone.\<close>

lemma only_writes_iff:
  "only_writes st st' \<longleftrightarrow>
     eval_metrics st' = eval_metrics st \<and>
     (\<exists>ws. events st' = events st @ ws \<and> list_all is_written ws)"
proof
  assume h: "only_writes st st'"
  then have "events st' = events st @ drop (length (events st)) (events st')"
    by (metis append_take_drop_id only_writes_def)
  with h show "eval_metrics st' = eval_metrics st \<and>
     (\<exists>ws. events st' = events st @ ws \<and> list_all is_written ws)"
    unfolding only_writes_def by blast
next
  assume "eval_metrics st' = eval_metrics st \<and>
     (\<exists>ws. events st' = events st @ ws \<and> list_all is_written ws)"
  then show "only_writes st st'" by (auto simp: only_writes_def)
qed

lemma only_writes_refl: "only_writes st st"
  by (simp add: only_writes_def)

lemma only_writes_trans: "only_writes a b \<Longrightarrow> only_writes b c \<Longrightarrow> only_writes a c"
  unfolding only_writes_iff by auto

lemma write_artifact_Inl:
  "write_artifact env st a content = Inl (e, st') \<Longrightarrow> st' = st \<and> \<not> is_unbound_local e"
  by (auto simp: write_artifact_def split: if_splits)

lemma write_artifact_Inr:
  "write_artifact env st a content = Inr st' \<Longrightarrow> only_writes st st' \<and> steps st' = steps st"
  by (auto simp: write_artifact_def emit_def only_writes_def split: if_splits)

lemma save_loop_effect:
  "case save_loop env st idx items of
     Inl (e, st') \<Rightarrow> \<not> is_unbound_local e \<and> only_writes st st'
   | Inr st' \<Rightarrow> only_writes st st'"
proof (induction env st idx items rule: save_loop.induct)
  case (1 env st idx)
  then show ?case by (simp add: only_writes_refl)
next
  case (2 env st idx y y_gen rest)
  show ?case
  proof (cases "write_artifact env st (Figure (steps st) idx) [y, y_gen]")
    case (Inl x)
    obtain e st' where x: "x = (e, st')" by (cases x)
    from write_artifact_Inl [OF Inl [unfolded x]] show ?thesis
      using Inl x by (simp add: only_writes_refl)
  next
    case Inr1: (Inr st1)
    note w1 = write_artifact_Inr [OF Inr1, THEN conjunct1]
    show ?thesis
    proof (cases "write_artifact env st1 (RefWav (steps st1) idx) [clip y]")
      case (Inl x)
      obtain e st' where x: "x = (e, st')" by (cases x)
      from write_artifact_Inl [OF Inl [unfolded x]] show ?thesis
        using Inr1 Inl x w1 by simp
    next
      case Inr2: (Inr st2)
      note w2 = only_writes_trans [OF w1 write_artifact_Inr [OF Inr2, THEN conjunct1]]
      show ?thesis
      proof (cases "write_artifact env st2 (GenWav (steps st2) idx) [clip y_gen]")
        case (Inl x)
        obtain e st' where x: "x = (e, st')" by (cases x)
        from write_artifact_Inl [OF Inl [unfolded x]] show ?thesis
          using Inr1 Inr2 Inl x w2 by simp
      next
        case Inr3: (Inr st3)
        note w3 = only_writes_trans [OF w2 write_artifact_Inr [OF Inr3, THEN conjunct1]]
        from "2.IH" [OF Inr1 Inr2 Inr3] show ?thesis
          using Inr1 Inr2 Inr3 w3 by (auto split: sum.splits intro: only_writes_trans)
      qed
    qed
  qed
qed

lemma export_effect:
  "case generate_and_save_intermediate_result env st batch idx of
     Inl (e, st') \<Rightarrow> \<not> is_unbound_local e \<and> only_writes st st'
   | Inr st' \<Rightarrow> only_writes st st'"
proof -
  obtain y_batch x_batch where b: "batch = (y_batch, x_batch)" by (cases batch)
  define items where "items = zip y_batch (predict env st x_batch)"
  show ?thesis
  proof (cases "Written (PredictionDir (steps st)) [] \<in> set (events st)")
    case True
    then show ?thesis
      using b save_loop_effect [where env = env and st = st and idx = idx and items = items]
      by (simp add: generate_and_save_intermediate_result_def Let_def items_def)
  next
    case False
    show ?thesis
    proof (cases "write_artifact env st (PredictionDir (steps st)) []")
      case (Inl x)
      obtain e st' where x: "x = (e, st')" by (cases x)
      from write_artifact_Inl [OF Inl [unfolded x]] show ?thesis
        using b False Inl x
        by (simp add: generate_and_save_intermediate_result_def Let_def only_writes_refl)
    next
      case (Inr st1)
      note w = write_artifact_Inr [OF Inr, THEN conjunct1]
      show ?thesis
        using b False Inr w
          save_loop_effect [where env = env and st = st1 and idx = idx and items = items]
        by (auto simp: generate_and_save_intermediate_result_def Let_def items_def
            split: sum.splits intro: only_writes_trans)
    qed
  qed
qed


lemma eval_loop_append:
  "eval_loop env (pre @ rest) k (st, v) =
     (case eval_loop env pre k (st, v) of
        Inl x \<Rightarrow> Inl x
      | Inr (s, v') \<Rightarrow> eval_loop env rest (k + int (length pre)) (s, v'))"
proof (induction pre arbitrary: k st v)
  case Nil
  then show ?case by simp
next
  case (Cons b pre)
  show ?case
    by (simp add: Cons.IH Let_def add.assoc split: sum.splits)
qed

lemma eval_loop_counter:
  "eval_loop env batches k (st, v) = Inr (s, v') \<Longrightarrow>
   v' = (if batches = [] then v else Some (k + int (length batches) - 1))"
proof (induction batches arbitrary: k st v)
  case Nil
  then show ?case by simp
next
  case (Cons b batches)
  from Cons.prems obtain st2 where
    rest: "eval_loop env batches (k + 1) (st2, Some k) = Inr (s, v')"
    by (auto simp: Let_def split: sum.splits if_splits)
  from Cons.IH [OF rest] show ?case by (cases "batches = []") auto
qed

lemma eval_loop_error:
  "eval_loop env batches k (st, v) = Inl (e, s) \<Longrightarrow> \<not> is_unbound_local e"
proof (induction batches arbitrary: k st v)
  case Nil
  then show ?case by simp
next
  case (Cons b batches)
  show ?case
  proof (cases "eval_step env st b")
    case (Inl x)
    then show ?thesis using Cons.prems eval_step_error [of env st b e s]
      by (simp add: Let_def)
  next
    case (Inr st1)
    show ?thesis
    proof (cases "k \<le> num_save_intermediate_results (config st1)")
      case True
      show ?thesis
      proof (cases "generate_and_save_intermediate_result env st1 b k")
        case (Inl x)
        then show ?thesis
          using Cons.prems Inr True
            export_effect [where env = env and st = st1 and batch = b and idx = k]
          by (auto simp: Let_def)
      next
        case Inr2: (Inr st2)
        then show ?thesis using Cons.prems Inr True Cons.IH [of "k + 1" st2 "Some k"]
          by (simp add: Let_def)
      qed
    next
      case False
      then show ?thesis using Cons.prems Inr Cons.IH [of "k + 1" st1 "Some k"]
        by (simp add: Let_def)
    qed
  qed
qed

text \<open>
  Claim C7, as stated, on two evaluation batches when the file system refuses the
  figure of the first one: the evaluation epoch raises \<open>OSError\<close>; every metric has
  accumulated one value only (the second batch is never evaluated), and nothing was
  logged or written to the summary after the start line and the new directory.
\<close>

theorem export_failure_counterexample:
  "raised (eval_epoch example_env_failing (example_trainer True) [example_batch, example_batch])
     = Some (OSError ''write failed'')
   \<and> map (m_count \<circ> snd) (eval_metrics (final_trainer
       (eval_epoch example_env_failing (example_trainer True) [example_batch, example_batch])))
     = [1, 1, 1, 1, 1, 1]
   \<and> events (final_trainer
       (eval_epoch example_env_failing (example_trainer True) [example_batch, example_batch]))
     = [LogEvalStart 0, Written (PredictionDir 0) []]"
  by code_simp

text \<open>
  Claim C7, amended: nothing in the evaluation epoch catches a failing export. If the
  export of an intermediate result fails at one of the first
  \<open>num_save_intermediate_results\<close> batches, the exception leaves \<open>_eval_epoch\<close> with
  the trainer as the export left it: the batches after it are not evaluated, and the
  metrics accumulated up to that batch are neither logged, written to the summary nor
  reset (from the evaluation of that batch on, only files were written).
\<close>

theorem export_failure_aborts_evaluation:
  assumes pre: "eval_loop env pre 1 (emit st (LogEvalStart (steps st)), None) = Inr (s, v)"
    and step: "eval_step env s b = Inr s1"
    and early: "1 + int (length pre) \<le> num_save_intermediate_results (config s1)"
    and fail: "generate_and_save_intermediate_result env s1 b (1 + int (length pre)) = Inl (e, s2)"
  shows "eval_epoch env st (pre @ b # post) = Inl (e, s2) \<and> only_writes s1 s2"
proof -
  have "eval_loop env (b # post) (1 + int (length pre)) (s, v) = Inl (e, s2)"
    using step early fail by (simp add: Let_def)
  then have "eval_loop env (pre @ b # post) 1 (emit st (LogEvalStart (steps st)), None)
               = Inl (e, s2)"
    by (simp add: eval_loop_append pre)
  then have "eval_epoch env st (pre @ b # post) = Inl (e, s2)"
    by (simp add: eval_epoch_def)
  moreover have "only_writes s1 s2"
    using export_effect [where env = env and st = s1 and batch = b and idx = "1 + int (length pre)"]
      fail by simp
  ultimately show ?thesis by simp
qed

theorem export_failure_aborts_evaluation_witness:
  "raised (eval_epoch example_env_failing (example_trainer True) [example_batch, example_batch])
     = Some (OSError ''write failed'')"
proof -
  define st0 :: "(real, nat) trainer" where
    "st0 = emit (example_trainer True) (LogEvalStart (steps (example_trainer True)))"
  have pre: "eval_loop example_env_failing [] 1 (st0, None) = Inr (st0, None)" by simp
  have "raised (eval_step example_env_failing st0 example_batch) = None"
    unfolding st0_def by code_simp
  then obtain s1 where step: "eval_step example_env_failing st0 example_batch = Inr s1"
    by (auto dest: raised_NoneD)
  have "num_save_intermediate_results
          (config (final_trainer (eval_step example_env_failing st0 example_batch))) = 1"
    unfolding st0_def by code_simp
  then have early: "1 + int (length ([] :: (tensor list \<times> tensor list) list))
                      \<le> num_save_intermediate_results (config s1)"
    unfolding step by (simp add: final_trainer_def)
  have "raised (generate_and_save_intermediate_result example_env_failing
          (final_trainer (eval_step example_env_failing st0 example_batch)) example_batch 1)
          = Some (OSError ''write failed'')"
    unfolding st0_def by code_simp
  then obtain s2 where
    fail: "generate_and_save_intermediate_result example_env_failing s1 example_batch
             (1 + int (length ([] :: (tensor list \<times> tensor list) list)))
           = Inl (OSError ''write failed'', s2)"
    unfolding step by (auto simp: final_trainer_def dest: raised_SomeD)
  from export_failure_aborts_evaluation
    [of example_env_failing "[]" "example_trainer True" st0 None example_batch s1
      "OSError ''write failed''" s2 "[example_batch]", unfolded st0_def [symmetric],
      OF pre step early fail]
  show ?thesis by (simp add: raised_def)
qed

text \<open>
  Claim C10, as stated, on one evaluation batch when the file system refuses its figure:
  an invocation with at least one batch that does not complete. It raises \<open>OSError\<close>,
  and the number of eval steps is never logged.
\<close>

theorem eval_epoch_raises_counterexample:
  "[example_batch] \<noteq> []
   \<and> raised (eval_epoch example_env_failing (example_trainer True) [example_batch])
       = Some (OSError ''write failed'')
   \<and> events (final_trainer
         (eval_epoch example_env_failing (example_trainer True) [example_batch]))
       = [LogEvalStart 0, Written (PredictionDir 0) []]"
  by code_simp

text \<open>
  Claim C10, amended: the evaluation epoch needs a non-empty evaluation dataset. On an
  empty data loader it raises \<open>UnboundLocalError\<close> for the loop counter
  \<open>eval_steps_per_epoch\<close>, read by the log line after the loop, instead of completing
  with zero steps. With at least one batch the counter is bound and the epoch never
  fails that way: unless the evaluation or the export of a batch raises, in which case
  that exception leaves the epoch, it completes, logging the number of batches as the
  number of eval steps, then the metrics and the summary, and resets the metrics.
\<close>

theorem eval_epoch_needs_a_batch:
  "eval_epoch env st []
     = Inl (UnboundLocalError ''eval_steps_per_epoch'', emit st (LogEvalStart (steps st)))
   \<and> (batches \<noteq> [] \<longrightarrow>
        (case eval_loop env batches 1 (emit st (LogEvalStart (steps st)), None) of
           Inl (e, s) \<Rightarrow> eval_epoch env st batches = Inl (e, s) \<and> \<not> is_unbound_local e
         | Inr (s, v) \<Rightarrow>
             raised (eval_epoch env st batches) = None \<and>
             events (final_trainer (eval_epoch env st batches)) =
               events s @ [LogEvalFinished (steps s) (int (length batches))] @
               map (\<lambda>(key, m). LogEvalMetric (steps s) key (result m)) (eval_metrics s) @
               [Tensorboard ''eval'' (steps s)
                  (map (\<lambda>(name, m). (name, result m)) (eval_metrics s))] \<and>
             eval_metrics (final_trainer (eval_epoch env st batches))
               = reset_all (eval_metrics s)))"
proof (intro conjI impI)
  show "eval_epoch env st []
     = Inl (UnboundLocalError ''eval_steps_per_epoch'', emit st (LogEvalStart (steps st)))"
    by (simp add: eval_epoch_def read_local_def)
next
  assume ne: "batches \<noteq> []"
  define st0 where "st0 = emit st (LogEvalStart (steps st))"
  show "case eval_loop env batches 1 (emit st (LogEvalStart (steps st)), None) of
           Inl (e, s) \<Rightarrow> eval_epoch env st batches = Inl (e, s) \<and> \<not> is_unbound_local e
         | Inr (s, v) \<Rightarrow>
             raised (eval_epoch env st batches) = None \<and>
             events (final_trainer (eval_epoch env st batches)) =
               events s @ [LogEvalFinished (steps s) (int (length batches))] @
               map (\<lambda>(key, m). LogEvalMetric (steps s) key (result m)) (eval_metrics s) @
               [Tensorboard ''eval'' (steps s)
                  (map (\<lambda>(name, m). (name, result m)) (eval_metrics s))] \<and>
             eval_metrics (final_trainer (eval_epoch env st batches))
               = reset_all (eval_metrics s)"
    unfolding st0_def [symmetric]
  proof (cases "eval_loop env batches 1 (st0, None)")
    case (Inl x)
    obtain e s where x: "x = (e, s)" by (cases x)
    have "\<not> is_unbound_local e" using Inl x eval_loop_error by blast
    then show "case eval_loop env batches 1 (st0, None) of
           Inl (e, s) \<Rightarrow> eval_epoch env st batches = Inl (e, s) \<and> \<not> is_unbound_local e
         | Inr (s, v) \<Rightarrow>
             raised (eval_epoch env st batches) = None \<and>
             events (final_trainer (eval_epoch env st batches)) =
               events s @ [LogEvalFinished (steps s) (int (length batches))] @
               map (\<lambda>(key, m). LogEvalMetric (steps s) key (result m)) (eval_metrics s) @
               [Tensorboard ''eval'' (steps s)
                  (map (\<lambda>(name, m). (name, result m)) (eval_metrics s))] \<and>
             eval_metrics (final_trainer (eval_epoch env st batches))
               = reset_all (eval_metrics s)"
      using Inl x by (simp add: eval_epoch_def st0_def)
  next
    case (Inr r)
    obtain s v where r: "r = (s, v)" by (cases r)
    have v: "v = Some (int (length batches))"
      using eval_loop_counter [of env batches 1 st0 None s v] Inr r ne by simp
    have ep: "eval_epoch env st batches =
        Inr (reset_states_eval
          (write_to_tensorboard
             (log_eval_metrics (emit s (LogEvalFinished (steps s) (int (length batches)))))
             (eval_metrics
                (log_eval_metrics (emit s (LogEvalFinished (steps s) (int (length batches))))))
             ''eval''))"
      using Inr r v
      by (simp add: eval_epoch_def st0_def [symmetric] read_local_def Let_def)
    show "case eval_loop env batches 1 (st0, None) of
           Inl (e, s) \<Rightarrow> eval_epoch env st batches = Inl (e, s) \<and> \<not> is_unbound_local e
         | Inr (s, v) \<Rightarrow>
             raised (eval_epoch env st batches) = None \<and>
             events (final_trainer (eval_epoch env st batches)) =
               events s @ [LogEvalFinished (steps s) (int (length batches))] @
               map (\<lambda>(key, m). LogEvalMetric (steps s) key (result m)) (eval_metrics s) @
               [Tensorboard ''eval'' (steps s)
                  (map (\<lambda>(name, m). (name, result m)) (eval_metrics s))] \<and>
             eval_metrics (final_trainer (eval_epoch env st batches))
               = reset_all (eval_metrics s)"
      unfolding ep using Inr r
      by (simp add: raised_def final_trainer_def emit_def log_eval_metrics_def
          write_to_tensorboard_def reset_states_eval_def)
  qed
qed

theorem eval_epoch_needs_a_batch_witness:
  "raised (eval_epoch example_env (example_trainer True) []) 
     = Some (UnboundLocalError ''eval_steps_per_epoch'')
   \<and> raised (eval_epoch example_env (example_trainer True) [example_batch, example_batch]) = None
   \<and> LogEvalFinished 0 2 \<in> set (events (final_trainer
        (eval_epoch example_env (example_trainer True) [example_batch, example_batch])))"
proof -
  define st0 :: "(real, nat) trainer" where
    "st0 = emit (example_trainer True) (LogEvalStart (steps (example_trainer True)))"
  have "raised (eval_loop example_env [example_batch, example_batch] 1 (st0, None)) = None"
    unfolding st0_def by code_simp
  then obtain r where
    loop: "eval_loop example_env [example_batch, example_batch] 1 (st0, None) = Inr r"
    by (auto dest: raised_NoneD)
  obtain s v where r: "r = (s, v)" by (cases r)
  have "steps (fst (case eval_loop example_env [example_batch, example_batch] 1 (st0, None) of
           Inr x \<Rightarrow> x)) = 0"
    unfolding st0_def by code_simp
  then have s: "steps s = 0" unfolding loop r by simp
  have ne: "[example_batch, example_batch] \<noteq> []" by simp
  from eval_epoch_needs_a_batch
    [of example_env "example_trainer True" "[example_batch, example_batch]",
      unfolded st0_def [symmetric] loop r]
  show ?thesis using s by (simp add: raised_def)
qed


end
